theory Spec2Isabelle
  imports Complex_Main "HOL-Library.Word"
begin

section \<open>JavaScript strings and numbers\<close>

text \<open>
  A JavaScript string is a sequence of UTF-16 code units; \<open>length\<close>, \<open>slice\<close>,
  \<open>indexOf\<close> and the regular expressions of the sources (none has the \<open>u\<close> flag) all
  count code units. A code unit is a natural number here, a string a list of them.
  Offsets are integers. Confidences and similarities are JavaScript doubles in the
  sources; they are exact rationals here, so the rounding of a double is not part of
  the model: the general theorems below are about the exact arithmetic, and the
  evaluations on concrete inputs decide every threshold with a margin far larger than
  one rounding step (0.68 against 0.7 and 0.5, 0.98 against 0.7).
\<close>

type_synonym cu = nat
type_synonym jsstring = "cu list"

definition asc :: "string \<Rightarrow> jsstring" where
  "asc s = map of_char s"

text \<open>The class \<open>\s\<close> of a regular expression, which is also what \<open>trim\<close> strips:
  white space and line terminators.\<close>

definition is_ws :: "cu \<Rightarrow> bool" where
  "is_ws c = (c = 9 \<or> c = 10 \<or> c = 11 \<or> c = 12 \<or> c = 13 \<or> c = 32 \<or> c = 160
     \<or> c = 5760 \<or> (8192 \<le> c \<and> c \<le> 8202) \<or> c = 8232 \<or> c = 8233 \<or> c = 8239
     \<or> c = 8287 \<or> c = 12288 \<or> c = 65279)"

text \<open>The class \<open>\w\<close>: \<open>[A-Za-z0-9_]\<close>.\<close>

definition is_word :: "cu \<Rightarrow> bool" where
  "is_word c = ((48 \<le> c \<and> c \<le> 57) \<or> (65 \<le> c \<and> c \<le> 90) \<or> c = 95 \<or> (97 \<le> c \<and> c \<le> 122))"

text \<open>The range from U+4E00 to U+9FFF of the second replacement in \<open>normalizeText\<close>.\<close>

definition is_cjk :: "cu \<Rightarrow> bool" where
  "is_cjk c = (19968 \<le> c \<and> c \<le> 40959)"

text \<open>What \<open>.\<close> does not match: the line terminators.\<close>

definition is_line_terminator :: "cu \<Rightarrow> bool" where
  "is_line_terminator c = (c = 10 \<or> c = 13 \<or> c = 8232 \<or> c = 8233)"

text \<open>\<open>s.slice(a, b)\<close>: a negative index counts from the end, both are clamped to the
  string, and an empty range gives the empty string.\<close>

definition slice :: "jsstring \<Rightarrow> int \<Rightarrow> int \<Rightarrow> jsstring" where
  "slice s a b =
     (let len = int (length s);
          from = (if a < 0 then max (len + a) 0 else min a len);
          to = (if b < 0 then max (len + b) 0 else min b len)
      in take (nat (to - from)) (drop (nat from) s))"

text \<open>\<open>s.slice(a)\<close>: to the end of the string.\<close>

definition slice_from :: "jsstring \<Rightarrow> int \<Rightarrow> jsstring" where
  "slice_from s a = slice s a (int (length s))"

definition starts_with :: "jsstring \<Rightarrow> jsstring \<Rightarrow> bool" where
  "starts_with t s = (take (length t) s = t)"

text \<open>\<open>s.indexOf(t)\<close>: the first offset at which \<open>t\<close> occurs in \<open>s\<close>, or \<open>-1\<close>.\<close>

fun index_from :: "jsstring \<Rightarrow> jsstring \<Rightarrow> nat \<Rightarrow> int" where
  "index_from t [] i = (if t = [] then int i else -1)"
| "index_from t (c # cs) i = (if starts_with t (c # cs) then int i else index_from t cs (Suc i))"

definition indexOf :: "jsstring \<Rightarrow> jsstring \<Rightarrow> int" where
  "indexOf s t = index_from t s 0"

text \<open>\<open>s.replace(/\s+/g, ' ')\<close>: every maximal run of white space becomes one space.\<close>

function collapse_ws :: "jsstring \<Rightarrow> jsstring" where
  "collapse_ws [] = []"
| "collapse_ws (c # cs) =
     (if is_ws c then 32 # collapse_ws (dropWhile is_ws cs) else c # collapse_ws cs)"
  by pat_completeness auto
termination
  by (relation "measure length") (auto simp: le_imp_less_Suc length_dropWhile_le)

definition trim :: "jsstring \<Rightarrow> jsstring" where
  "trim s = rev (dropWhile is_ws (rev (dropWhile is_ws s)))"

text \<open>\<open>s.split(/\s+/)\<close>: the pieces between maximal runs of white space; a string that
  starts or ends with white space has an empty first or last piece, and the empty
  string splits into one empty piece.\<close>

function split_ws :: "jsstring \<Rightarrow> jsstring list" where
  "split_ws [] = [[]]"
| "split_ws (c # cs) =
     (if is_ws c then [] # split_ws (dropWhile is_ws cs)
      else (case split_ws cs of [] \<Rightarrow> [[c]] | w # ws \<Rightarrow> (c # w) # ws))"
  by pat_completeness auto
termination
  by (relation "measure length") (auto simp: le_imp_less_Suc length_dropWhile_le)

text \<open>\<open>s.split(d)\<close> for a one-character separator \<open>d\<close>.\<close>

fun split_char :: "cu \<Rightarrow> jsstring \<Rightarrow> jsstring list" where
  "split_char d [] = [[]]"
| "split_char d (c # cs) =
     (if c = d then [] # split_char d cs
      else (case split_char d cs of [] \<Rightarrow> [[c]] | w # ws \<Rightarrow> (c # w) # ws))"

text \<open>\<open>ws.join(sep)\<close>.\<close>

fun join :: "jsstring \<Rightarrow> jsstring list \<Rightarrow> jsstring" where
  "join sep [] = []"
| "join sep [w] = w"
| "join sep (w # ws) = w @ sep @ join sep ws"

text \<open>The size of \<open>new Set(xs)\<close>.\<close>

definition set_size :: "'a list \<Rightarrow> nat" where
  "set_size xs = length (remdups xs)"

section \<open>What the JavaScript runtime provides\<close>

text \<open>
  Three facilities of the runtime are not code of this repository and are parameters
  of the model, so that every theorem quantified over the runtime holds for the real
  one: \<open>String.prototype.toLowerCase\<close> (the Unicode case mapping), the
  canonicalisation of a code unit under the \<open>i\<close> flag of a regular expression, and the
  regular-expression engine run on the pattern that \<open>findByFuzzyMatch\<close> assembles from
  the unescaped words of the selected text (any pattern syntax can stand there).
  \<open>regexp_first p s\<close> is \<open>Array.from(s.matchAll(new RegExp(p, 'gi')))[0]\<close>: the
  constructor throws a \<open>SyntaxError\<close>, or there is no match, or the first match with
  its index and text.
\<close>

datatype regexp_outcome = SyntaxError | NoMatch | FirstMatch nat jsstring

record js_runtime =
  toLowerCase :: "jsstring \<Rightarrow> jsstring"
  canonicalize :: "cu \<Rightarrow> cu"
  regexp_first :: "jsstring \<Rightarrow> jsstring \<Rightarrow> regexp_outcome"

section \<open>The data model (shared/types/annotation.types.ts)\<close>

record Primary =
  startOffset :: int
  endOffset :: int
  selectedText :: jsstring

record ContextInfo =
  ctx_before :: jsstring
  ctx_after :: jsstring
  ctx_hash :: jsstring

record StructuralPath =
  chapterId :: "jsstring option"
  articleId :: "jsstring option"
  sectionId :: "jsstring option"
  paragraphIndex :: "int option"
  elementPath :: "jsstring option"

record PositionMetadata =
  createdAt :: nat
  textLength :: nat
  pm_confidence :: rat
  version :: "jsstring option"

record AnnotationPosition =
  primary :: Primary
  context_info :: ContextInfo
  structural :: StructuralPath
  fingerprint :: jsstring
  metadata :: PositionMetadata

record SelectionData =
  sel_selectedText :: jsstring
  sel_startOffset :: int
  sel_endOffset :: int
  contextBefore :: jsstring
  contextAfter :: jsstring
  sel_elementPath :: "jsstring option"
  pageUrl :: "jsstring option"

record TextRange =
  r_startOffset :: int
  r_endOffset :: int
  r_text :: jsstring
  r_confidence :: "rat option"

datatype PositioningMethod =
  primary_position | context_match | text_fingerprint | structural_path | fuzzy_match

record AnnotationMatch =
  am_range :: TextRange
  am_confidence :: rat
  am_method :: PositioningMethod
  am_strategy :: PositioningMethod
  validationPassed :: bool

record TextMatch =
  m_startOffset :: int
  m_endOffset :: int
  m_text :: jsstring
  score :: rat
  m_method :: PositioningMethod

text \<open>\<open>processingTime\<close> (wall-clock milliseconds) is left out of the result's metadata.\<close>

record ResultMetadata =
  totalAttempts :: nat
  strategiesUsed :: "PositioningMethod list"
  res_confidence :: rat

record PositioningResult =
  success :: bool
  position :: "AnnotationPosition option"
  matches :: "AnnotationMatch list option"
  errors :: "jsstring list option"
  res_metadata :: ResultMetadata

section \<open>PositionService: scoring and validation\<close>

text \<open>\<open>normalizeText\<close> of PositionService: the second replacement removes every code
  unit outside \<open>\w\<close> and the CJK range, the spaces left by the first included.\<close>

definition normalizeText_PS :: "js_runtime \<Rightarrow> jsstring \<Rightarrow> jsstring" where
  "normalizeText_PS rt t =
     trim (toLowerCase rt (filter (\<lambda>c. is_word c \<or> is_cjk c) (collapse_ws t)))"

definition calculateTextSimilarity_PS :: "js_runtime \<Rightarrow> jsstring \<Rightarrow> jsstring \<Rightarrow> rat" where
  "calculateTextSimilarity_PS rt text1 text2 =
     (if text1 = text2 then 1
      else let normalized1 = normalizeText_PS rt text1;
               normalized2 = normalizeText_PS rt text2
           in if normalized1 = normalized2 then 19 / 20
              else let words1 = remdups (split_ws normalized1);
                       words2 = remdups (split_ws normalized2);
                       intersection = filter (\<lambda>x. x \<in> set words2) words1;
                       union = words1 @ words2
                   in of_nat (set_size intersection) / of_nat (set_size union))"

text \<open>In \<open>validatePosition\<close> the ratio \<open>result.text.length / originalLength\<close> is
  \<open>Infinity\<close> when the stored text is empty (the candidate's text is not, at that
  point), which is above 2.0: the candidate is rejected.\<close>

definition validatePosition :: "js_runtime \<Rightarrow> TextRange \<Rightarrow> AnnotationPosition \<Rightarrow> bool" where
  "validatePosition rt result originalPosition =
     (if r_text result = [] then False
      else let originalLength = length (selectedText (primary originalPosition)) in
        if originalLength = 0 then False
        else let lengthRatio = (of_nat (length (r_text result)) :: rat) / of_nat originalLength in
          if lengthRatio < 1 / 2 \<or> lengthRatio > 2 then False
          else calculateTextSimilarity_PS rt (r_text result)
                 (selectedText (primary originalPosition)) \<ge> 3 / 5)"

definition calculatePositionAccuracy :: "TextRange \<Rightarrow> AnnotationPosition \<Rightarrow> rat" where
  "calculatePositionAccuracy result originalPosition =
     (let originalStart = startOffset (primary originalPosition);
          originalEnd = endOffset (primary originalPosition);
          startDiff = \<bar>r_startOffset result - originalStart\<bar>;
          endDiff = \<bar>r_endOffset result - originalEnd\<bar>;
          textLength = originalEnd - originalStart;
          maxAllowedDiff = max (of_int textLength * (1 / 10)) (10 :: rat);
          startAccuracy = max 0 (1 - of_int startDiff / maxAllowedDiff);
          endAccuracy = max 0 (1 - of_int endDiff / maxAllowedDiff)
      in (startAccuracy + endAccuracy) / 2)"

definition calculateLengthConsistency :: "TextRange \<Rightarrow> AnnotationPosition \<Rightarrow> rat" where
  "calculateLengthConsistency result originalPosition =
     (let originalLength = length (selectedText (primary originalPosition));
          currentLength = length (r_text result)
      in if originalLength = 0 then (if currentLength = 0 then 1 else 0)
         else of_nat (min currentLength originalLength) / of_nat (max currentLength originalLength))"

definition calculateContextMatch :: "TextRange \<Rightarrow> AnnotationPosition \<Rightarrow> rat" where
  "calculateContextMatch result originalPosition = 4 / 5"

definition calculateMatchConfidence :: "js_runtime \<Rightarrow> TextRange \<Rightarrow> AnnotationPosition \<Rightarrow> rat" where
  "calculateMatchConfidence rt result originalPosition =
     (let textSimilarity = calculateTextSimilarity_PS rt (r_text result)
                             (selectedText (primary originalPosition));
          confidence1 = 0 + textSimilarity * (2 / 5);
          positionAccuracy = calculatePositionAccuracy result originalPosition;
          confidence2 = confidence1 + positionAccuracy * (3 / 10);
          lengthConsistency = calculateLengthConsistency result originalPosition;
          confidence3 = confidence2 + lengthConsistency * (1 / 5);
          contextMatch = calculateContextMatch result originalPosition;
          confidence4 = confidence3 + contextMatch * (1 / 10)
      in min confidence4 1)"

text \<open>\<open>newRange.confidence || 0.8\<close>: an absent confidence and the confidence 0 are
  both falsy.\<close>

definition updatePosition :: "AnnotationPosition \<Rightarrow> TextRange \<Rightarrow> AnnotationPosition" where
  "updatePosition originalPosition newRange =
     originalPosition
       \<lparr> primary := \<lparr> startOffset = r_startOffset newRange,
                      endOffset = r_endOffset newRange,
                      selectedText = r_text newRange \<rparr>,
         metadata := (metadata originalPosition)
                      \<lparr> pm_confidence :=
                          (case r_confidence newRange of
                             None \<Rightarrow> 4 / 5
                           | Some c \<Rightarrow> if c = 0 then 4 / 5 else c) \<rparr> \<rparr>"

section \<open>PositionService: the primary-position recheck\<close>

definition findByPrimaryPosition ::
  "js_runtime \<Rightarrow> jsstring \<Rightarrow> AnnotationPosition \<Rightarrow> TextRange option" where
  "findByPrimaryPosition rt textContent pos =
     (let start = startOffset (primary pos);
          end' = endOffset (primary pos);
          selected = selectedText (primary pos)
      in if start < 0 \<or> end' > int (length textContent) \<or> start \<ge> end' then None
         else let extractedText = slice textContent start end' in
           if extractedText = selected
           then Some \<lparr> r_startOffset = start, r_endOffset = end',
                       r_text = extractedText, r_confidence = Some 1 \<rparr>
           else if normalizeText_PS rt extractedText = normalizeText_PS rt selected
           then Some \<lparr> r_startOffset = start, r_endOffset = end',
                       r_text = extractedText, r_confidence = Some (9 / 10) \<rparr>
           else None)"

section \<open>HashUtil and the creation of a locator\<close>

text \<open>\<open>HashUtil.sha256\<close>: \<open>hash = ((hash << 5) - hash) + char; hash = hash & hash\<close>
  keeps a 32-bit signed integer; the result is \<open>Math.abs(hash).toString(16)\<close>.\<close>

definition hash_step :: "32 word \<Rightarrow> cu \<Rightarrow> 32 word" where
  "hash_step h c = (push_bit 5 h - h) + of_nat c"

definition hex_digit :: "nat \<Rightarrow> cu" where
  "hex_digit d = (if d < 10 then 48 + d else 87 + d)"

function to_hex :: "nat \<Rightarrow> jsstring" where
  "to_hex n = (if n < 16 then [hex_digit n] else to_hex (n div 16) @ [hex_digit (n mod 16)])"
  by pat_completeness auto
termination
  by (relation "measure id") auto

definition sha256 :: "jsstring \<Rightarrow> jsstring" where
  "sha256 input = to_hex (nat \<bar>sint (foldl hash_step 0 input)\<bar>)"

function to_decimal_nat :: "nat \<Rightarrow> jsstring" where
  "to_decimal_nat n =
     (if n < 10 then [48 + n] else to_decimal_nat (n div 10) @ [48 + n mod 10])"
  by pat_completeness auto
termination
  by (relation "measure id") auto

text \<open>An integer inside a template string.\<close>

definition to_decimal :: "int \<Rightarrow> jsstring" where
  "to_decimal n = (if n < 0 then 45 # to_decimal_nat (nat (- n)) else to_decimal_nat (nat n))"

text \<open>The truth value of an optional string (absent and empty are falsy) and of an
  optional number (absent and 0 are falsy).\<close>

definition truthy_string :: "jsstring option \<Rightarrow> bool" where
  "truthy_string v = (case v of None \<Rightarrow> False | Some s \<Rightarrow> s \<noteq> [])"

definition truthy_number :: "int option \<Rightarrow> bool" where
  "truthy_number v = (case v of None \<Rightarrow> False | Some n \<Rightarrow> n \<noteq> 0)"

definition generateContextHash :: "jsstring \<Rightarrow> jsstring \<Rightarrow> jsstring \<Rightarrow> jsstring" where
  "generateContextHash ctxBefore selected ctxAfter = sha256 (ctxBefore @ selected @ ctxAfter)"

text \<open>The 3-grams of a word list: \<open>words.slice(i, i + 3).join(' ')\<close> for
  \<open>i < words.length - 2\<close>.\<close>

definition trigrams_of :: "jsstring list \<Rightarrow> jsstring list" where
  "trigrams_of words = map (\<lambda>i. join [32] (take 3 (drop i words))) [0 ..< length words - 2]"

definition generateTextFingerprint_PS :: "jsstring \<Rightarrow> jsstring \<Rightarrow> jsstring \<Rightarrow> jsstring" where
  "generateTextFingerprint_PS selected ctxBefore ctxAfter =
     (let combined = ctxBefore @ selected @ ctxAfter;
          words = filter (\<lambda>word. length word > 2) (split_ws combined)
      in sha256 (join [124] (trigrams_of words)))"

definition calculatePositionConfidence :: "SelectionData \<Rightarrow> rat" where
  "calculatePositionConfidence sel =
     (let c0 = 1 / 2;
          c1 = (if length (sel_selectedText sel) > 10 then c0 + 1 / 10 else c0);
          c2 = (if length (sel_selectedText sel) > 50 then c1 + 1 / 10 else c1);
          c3 = (if length (contextBefore sel) > 20 then c2 + 1 / 10 else c2);
          c4 = (if length (contextAfter sel) > 20 then c3 + 1 / 10 else c3);
          c5 = (if truthy_string (sel_elementPath sel) then c4 + 1 / 5 else c4)
      in min c5 1)"

subsection \<open>StructuralAnalyzer\<close>

definition calculateParagraphIndex :: "int \<Rightarrow> int" where
  "calculateParagraphIndex offset = offset div 300"

definition findChapterId :: "jsstring \<Rightarrow> int \<Rightarrow> jsstring option" where
  "findChapterId textId offset = Some (asc ''chapter_'' @ to_decimal (offset div 5000))"

definition findArticleId :: "jsstring \<Rightarrow> int \<Rightarrow> jsstring option" where
  "findArticleId textId offset = Some (asc ''article_'' @ to_decimal (offset div 1000))"

definition analyze :: "jsstring \<Rightarrow> int \<Rightarrow> int \<Rightarrow> jsstring option \<Rightarrow> StructuralPath" where
  "analyze textId start end' path =
     \<lparr> chapterId = (if truthy_string (findChapterId textId start)
                     then findChapterId textId start else None),
       articleId = (if truthy_string (findArticleId textId start)
                     then findArticleId textId start else None),
       sectionId = None,
       paragraphIndex = Some (calculateParagraphIndex start),
       elementPath = (if truthy_string path then path else None) \<rparr>"

definition findByParagraphIndex :: "jsstring \<Rightarrow> int \<Rightarrow> jsstring \<Rightarrow> TextRange option" where
  "findByParagraphIndex textContent paragraphIdx targetText =
     (let estimatedOffset = paragraphIdx * 300;
          searchStart = max 0 (estimatedOffset - 100);
          searchEnd = min (int (length textContent)) (estimatedOffset + 600);
          searchArea = slice textContent searchStart searchEnd;
          targetIndex = indexOf searchArea targetText
      in if targetIndex \<noteq> -1
         then let absoluteStart = searchStart + targetIndex in
              Some \<lparr> r_startOffset = absoluteStart,
                     r_endOffset = absoluteStart + int (length targetText),
                     r_text = targetText, r_confidence = Some (4 / 5) \<rparr>
         else None)"

definition findByElementPath :: "jsstring \<Rightarrow> jsstring \<Rightarrow> jsstring \<Rightarrow> TextRange option" where
  "findByElementPath textContent path targetText =
     (let index = indexOf textContent targetText
      in if index \<noteq> -1
         then Some \<lparr> r_startOffset = index, r_endOffset = index + int (length targetText),
                     r_text = targetText, r_confidence = Some (9 / 10) \<rparr>
         else None)"

text \<open>\<open>StructuralAnalyzer.findByStructuralPath\<close> tests \<open>paragraphIndex !== undefined\<close>
  and then the truth value of \<open>elementPath\<close>.\<close>

definition findByStructuralPath_SA :: "jsstring \<Rightarrow> AnnotationPosition \<Rightarrow> TextRange option" where
  "findByStructuralPath_SA textContent pos =
     (case paragraphIndex (structural pos) of
        Some idx \<Rightarrow> findByParagraphIndex textContent idx (selectedText (primary pos))
      | None \<Rightarrow>
          (case elementPath (structural pos) of
             None \<Rightarrow> None
           | Some path \<Rightarrow>
               if path = [] then None
               else findByElementPath textContent path (selectedText (primary pos))))"

text \<open>\<open>PositionService.findByStructuralPath\<close> tests the truth values
  \<open>!elementPath && !paragraphIndex\<close> before it delegates.\<close>

definition findByStructuralPath :: "jsstring \<Rightarrow> AnnotationPosition \<Rightarrow> TextRange option" where
  "findByStructuralPath textContent pos =
     (if \<not> truthy_string (elementPath (structural pos))
         \<and> \<not> truthy_number (paragraphIndex (structural pos))
      then None
      else findByStructuralPath_SA textContent pos)"

subsection \<open>calculatePosition\<close>

text \<open>\<open>now\<close> is the value of \<open>new Date()\<close>.\<close>

definition calculatePosition :: "nat \<Rightarrow> jsstring \<Rightarrow> SelectionData \<Rightarrow> AnnotationPosition" where
  "calculatePosition now textId sel =
     \<lparr> primary = \<lparr> startOffset = sel_startOffset sel, endOffset = sel_endOffset sel,
                   selectedText = sel_selectedText sel \<rparr>,
       context_info =
         \<lparr> ctx_before = slice_from (contextBefore sel) (- 50),
           ctx_after = slice (contextAfter sel) 0 50,
           ctx_hash = generateContextHash (contextBefore sel) (sel_selectedText sel)
                        (contextAfter sel) \<rparr>,
       structural = analyze textId (sel_startOffset sel) (sel_endOffset sel)
                      (sel_elementPath sel),
       fingerprint = generateTextFingerprint_PS (sel_selectedText sel) (contextBefore sel)
                       (contextAfter sel),
       metadata = \<lparr> createdAt = now, textLength = length (sel_selectedText sel),
                    pm_confidence = calculatePositionConfidence sel, version = None \<rparr> \<rparr>"

section \<open>TextMatchingAlgorithm\<close>

text \<open>\<open>normalizeText\<close> of TextMatchingAlgorithm keeps white space, unlike the one of
  PositionService.\<close>

definition normalizeText_TMA :: "js_runtime \<Rightarrow> jsstring \<Rightarrow> jsstring" where
  "normalizeText_TMA rt t =
     trim (toLowerCase rt
       (filter (\<lambda>c. is_word c \<or> is_cjk c \<or> is_ws c) (collapse_ws t)))"

definition calculateTextSimilarity_TMA :: "js_runtime \<Rightarrow> jsstring \<Rightarrow> jsstring \<Rightarrow> rat" where
  "calculateTextSimilarity_TMA rt text1 text2 =
     (if text1 = text2 then 1
      else let norm1 = normalizeText_TMA rt text1;
               norm2 = normalizeText_TMA rt text2
           in if norm1 = norm2 then 19 / 20
              else let words1 = remdups (split_ws norm1);
                       words2 = remdups (split_ws norm2);
                       intersection = filter (\<lambda>x. x \<in> set words2) words1;
                       union = words1 @ words2
                   in of_nat (set_size intersection)
                      / of_nat (if set_size union = 0 then 1 else set_size union))"

subsection \<open>The fingerprint window search\<close>

definition generateTextFingerprint_TMA :: "js_runtime \<Rightarrow> jsstring \<Rightarrow> jsstring" where
  "generateTextFingerprint_TMA rt t =
     (let words = filter (\<lambda>word. length word > 2) (split_ws (toLowerCase rt t))
      in join [124] (trigrams_of words))"

definition compareFingerprints :: "jsstring \<Rightarrow> jsstring \<Rightarrow> bool" where
  "compareFingerprints fp1 fp2 =
     (let trigrams1 = remdups (split_char 124 fp1);
          trigrams2 = remdups (split_char 124 fp2);
          intersection = filter (\<lambda>x. x \<in> set trigrams2) trigrams1;
          union = trigrams1 @ trigrams2;
          similarity = (of_nat (set_size intersection) :: rat)
                       / of_nat (if set_size union = 0 then 1 else set_size union)
      in similarity > 3 / 10)"

definition window_step :: "nat \<Rightarrow> nat" where
  "window_step windowSize = max 1 (windowSize div 4)"

text \<open>The loop \<open>for (let i = 0; i <= textContent.length - windowSize; i += step)\<close>,
  from the index \<open>i\<close> on; \<open>step\<close> is \<open>window_step windowSize\<close> throughout.\<close>

function fingerprint_loop ::
  "js_runtime \<Rightarrow> jsstring \<Rightarrow> jsstring \<Rightarrow> jsstring \<Rightarrow> nat \<Rightarrow> TextRange option" where
  "fingerprint_loop rt textContent targetText fp i =
     (let windowSize = length targetText in
      if int i \<le> int (length textContent) - int windowSize
      then let candidate = slice textContent (int i) (int i + int windowSize);
               candidateFingerprint = generateTextFingerprint_TMA rt candidate
           in if compareFingerprints fp candidateFingerprint
              then let similarity = calculateTextSimilarity_TMA rt targetText candidate
                   in if similarity > 4 / 5
                      then Some \<lparr> r_startOffset = int i,
                                  r_endOffset = int i + int windowSize,
                                  r_text = candidate, r_confidence = Some similarity \<rparr>
                      else fingerprint_loop rt textContent targetText fp
                             (i + window_step windowSize)
              else fingerprint_loop rt textContent targetText fp (i + window_step windowSize)
      else None)"
  by pat_completeness auto
termination
  by (relation "measure (\<lambda>(rt, textContent, targetText, fp, i). Suc (length textContent) - i)")
     (auto simp: window_step_def)

definition findByTextFingerprint ::
  "js_runtime \<Rightarrow> jsstring \<Rightarrow> AnnotationPosition \<Rightarrow> TextRange option" where
  "findByTextFingerprint rt textContent pos =
     fingerprint_loop rt textContent (selectedText (primary pos)) (fingerprint pos) 0"

subsection \<open>The context pattern and its matches\<close>

text \<open>
  The pattern \<open>`${before}.{0,200}${after}`\<close> with flags \<open>gi\<close>, where \<open>before\<close> and
  \<open>after\<close> went through \<open>escapeRegex\<close>: an escaped text matches exactly itself, so it
  is a sequence of literal atoms, and \<open>.{0,200}\<close> is one greedy atom. \<open>match_here\<close> is
  the backtracking matcher at a fixed start: the length of the match, the greedy atom
  taking the longest run (of code units that are no line terminators) after which the
  rest of the pattern matches. Literals compare by their canonical forms.
\<close>

datatype regex_atom = Lit cu | AnyUpTo nat

definition escapeRegex :: "jsstring \<Rightarrow> regex_atom list" where
  "escapeRegex t = map Lit t"

definition buildContextPattern :: "ContextInfo \<Rightarrow> regex_atom list" where
  "buildContextPattern ctx =
     escapeRegex (ctx_before ctx) @ [AnyUpTo 200] @ escapeRegex (ctx_after ctx)"

fun first_some :: "'a option list \<Rightarrow> 'a option" where
  "first_some [] = None"
| "first_some (Some x # xs) = Some x"
| "first_some (None # xs) = first_some xs"

fun match_here :: "(cu \<Rightarrow> cu) \<Rightarrow> regex_atom list \<Rightarrow> jsstring \<Rightarrow> nat option" where
  "match_here canon [] s = Some 0"
| "match_here canon (Lit c # r) s =
     (case s of
        [] \<Rightarrow> None
      | x # xs \<Rightarrow> if canon x = canon c then map_option Suc (match_here canon r xs) else None)"
| "match_here canon (AnyUpTo n # r) s =
     (let most = length (takeWhile (\<lambda>c. \<not> is_line_terminator c) (take n s))
      in first_some (map (\<lambda>k. map_option (\<lambda>m. k + m) (match_here canon r (drop k s)))
                         (rev [0 ..< Suc most])))"

text \<open>\<open>pattern.exec(text)\<close> of a global pattern whose \<open>lastIndex\<close> is \<open>lastIndex\<close>: the
  leftmost start from there on at which the pattern matches, with the length of the
  match; \<open>exec\<close> then sets \<open>lastIndex\<close> to the end of the match.\<close>

definition regex_exec ::
  "(cu \<Rightarrow> cu) \<Rightarrow> regex_atom list \<Rightarrow> jsstring \<Rightarrow> nat \<Rightarrow> (nat \<times> nat) option" where
  "regex_exec canon pat t lastIndex =
     first_some (map (\<lambda>s. map_option (Pair s) (match_here canon pat (drop s t)))
                     [lastIndex ..< Suc (length t)])"

text \<open>
  \<open>findMatches\<close>: \<open>while ((match = pattern.exec(text)) !== null) matches.push(...)\<close>.
  An empty match leaves \<open>lastIndex\<close> where it is, so the loop need not end: the result
  is \<open>None\<close> when it does not.
\<close>

partial_function (option) findMatches_loop ::
  "(cu \<Rightarrow> cu) \<Rightarrow> regex_atom list \<Rightarrow> jsstring \<Rightarrow> nat \<Rightarrow> TextMatch list \<Rightarrow> TextMatch list option"
where
  "findMatches_loop canon pat t lastIndex found =
     (case regex_exec canon pat t lastIndex of
        None \<Rightarrow> Some found
      | Some (index, n) \<Rightarrow>
          findMatches_loop canon pat t (index + n)
            (found @ [\<lparr> m_startOffset = int index, m_endOffset = int index + int n,
                        m_text = take n (drop index t), score = 1,
                        m_method = context_match \<rparr>]))"

definition findMatches ::
  "(cu \<Rightarrow> cu) \<Rightarrow> jsstring \<Rightarrow> regex_atom list \<Rightarrow> TextMatch list option" where
  "findMatches canon t pat = findMatches_loop canon pat t 0 []"

definition calculatePositionSimilarity :: "TextMatch \<Rightarrow> AnnotationPosition \<Rightarrow> rat" where
  "calculatePositionSimilarity m pos =
     (let originalStart = startOffset (primary pos);
          distance = \<bar>m_startOffset m - originalStart\<bar>;
          maxDistance = max 1000 (of_int originalStart * (1 / 10) :: rat)
      in max 0 (1 - of_int distance / maxDistance))"

definition calculateLengthSimilarity :: "TextMatch \<Rightarrow> AnnotationPosition \<Rightarrow> rat" where
  "calculateLengthSimilarity m pos =
     (let originalLength = length (selectedText (primary pos));
          matchLength = length (m_text m)
      in if originalLength = 0 then (if matchLength = 0 then 1 else 0)
         else of_nat (min matchLength originalLength) / of_nat (max matchLength originalLength))"

definition calculateMatchScore :: "js_runtime \<Rightarrow> TextMatch \<Rightarrow> AnnotationPosition \<Rightarrow> rat" where
  "calculateMatchScore rt m pos =
     0 + calculatePositionSimilarity m pos * (3 / 10)
       + calculateTextSimilarity_TMA rt (m_text m) (selectedText (primary pos)) * (2 / 5)
       + calculateLengthSimilarity m pos * (3 / 10)"

text \<open>\<open>selectBestMatch\<close> throws on an empty list; \<open>reduce\<close> starts from the first match
  and visits every match, the first included.\<close>

definition selectBestMatch ::
  "js_runtime \<Rightarrow> TextMatch list \<Rightarrow> AnnotationPosition \<Rightarrow> jsstring + TextMatch" where
  "selectBestMatch rt ms pos =
     (case ms of
        [] \<Rightarrow> Inl (asc ''No matches provided'')
      | [m] \<Rightarrow> Inr m
      | m # _ \<Rightarrow>
          Inr (foldl (\<lambda>best current.
                 if calculateMatchScore rt current pos > calculateMatchScore rt best pos
                 then current else best) m ms))"

definition locateExactText :: "jsstring \<Rightarrow> TextMatch \<Rightarrow> jsstring \<Rightarrow> TextRange" where
  "locateExactText textContent m targetText =
     (let searchArea = slice textContent (m_startOffset m) (m_endOffset m);
          targetIndex = indexOf searchArea targetText
      in if targetIndex \<noteq> -1
         then let absoluteStart = m_startOffset m + targetIndex in
              \<lparr> r_startOffset = absoluteStart,
                r_endOffset = absoluteStart + int (length targetText),
                r_text = targetText, r_confidence = Some (19 / 20) \<rparr>
         else \<lparr> r_startOffset = m_startOffset m, r_endOffset = m_endOffset m,
                r_text = m_text m, r_confidence = Some (7 / 10) \<rparr>)"

text \<open>What a strategy does when it is run: it returns a range or \<open>null\<close>, or it throws
  an error with a message. A strategy that does not return at all is \<open>None\<close> of the
  option around this type.\<close>

datatype strategy_outcome = Returned "TextRange option" | Threw jsstring

definition findByContextMatch ::
  "js_runtime \<Rightarrow> jsstring \<Rightarrow> AnnotationPosition \<Rightarrow> strategy_outcome option" where
  "findByContextMatch rt textContent pos =
     (let contextPattern = buildContextPattern (context_info pos) in
      case findMatches (canonicalize rt) textContent contextPattern of
        None \<Rightarrow> None
      | Some ms \<Rightarrow>
          if length ms = 0 then Some (Returned None)
          else (case selectBestMatch rt ms pos of
                  Inl message \<Rightarrow> Some (Threw message)
                | Inr bestMatch \<Rightarrow>
                    Some (Returned (Some (locateExactText textContent bestMatch
                                            (selectedText (primary pos)))))))"

subsection \<open>The fuzzy search\<close>

definition findOriginalPosition :: "jsstring \<Rightarrow> int \<Rightarrow> nat \<Rightarrow> int" where
  "findOriginalPosition originalText normalizedIndex normalizedLength = normalizedIndex"

definition findBestSubstringMatch ::
  "js_runtime \<Rightarrow> jsstring \<Rightarrow> jsstring \<Rightarrow> TextRange option" where
  "findBestSubstringMatch rt textContent targetText =
     (let normalizedTarget = normalizeText_TMA rt targetText;
          normalizedContent = normalizeText_TMA rt textContent;
          index = indexOf normalizedContent normalizedTarget
      in if index \<noteq> -1
         then let originalIndex = findOriginalPosition textContent index (length normalizedTarget)
              in if originalIndex \<noteq> -1
                 then Some \<lparr> r_startOffset = originalIndex,
                             r_endOffset = originalIndex + int (length targetText),
                             r_text = slice textContent originalIndex
                                        (originalIndex + int (length targetText)),
                             r_confidence = Some (4 / 5) \<rparr>
                 else None
         else None)"

text \<open>The search pattern is the words of the selected text joined by \<open>\s*\<close> (the code
  units 92, 115, 42), unescaped.
  A \<open>SyntaxError\<close> of the constructor is caught; then, and when nothing matches or the
  first match is not similar enough, the substring search decides.\<close>

definition findByFuzzyMatch ::
  "js_runtime \<Rightarrow> jsstring \<Rightarrow> AnnotationPosition \<Rightarrow> TextRange option" where
  "findByFuzzyMatch rt textContent pos =
     (let targetText = selectedText (primary pos);
          words = split_ws targetText;
          searchPattern = join [92, 115, 42] words
      in case regexp_first rt searchPattern textContent of
           FirstMatch index matchedText \<Rightarrow>
             (let similarity = calculateTextSimilarity_TMA rt targetText matchedText
              in if similarity > 3 / 5
                 then Some \<lparr> r_startOffset = int index,
                             r_endOffset = int index + int (length matchedText),
                             r_text = matchedText, r_confidence = Some similarity \<rparr>
                 else findBestSubstringMatch rt textContent targetText)
         | NoMatch \<Rightarrow> findBestSubstringMatch rt textContent targetText
         | SyntaxError \<Rightarrow> findBestSubstringMatch rt textContent targetText)"

section \<open>PositionService.findAnnotationPosition\<close>

definition method_name :: "PositioningMethod \<Rightarrow> jsstring" where
  "method_name m =
     (case m of
        primary_position \<Rightarrow> asc ''primary_position''
      | context_match \<Rightarrow> asc ''context_match''
      | text_fingerprint \<Rightarrow> asc ''text_fingerprint''
      | structural_path \<Rightarrow> asc ''structural_path''
      | fuzzy_match \<Rightarrow> asc ''fuzzy_match'')"

text \<open>The array \<open>strategies\<close>: each method with what its \<open>execute\<close> does when called.
  Only the context search can fail to return; no strategy of the service throws on a
  well-typed locator, the loop below handles a throwing one all the same.\<close>

definition strategies ::
  "js_runtime \<Rightarrow> jsstring \<Rightarrow> AnnotationPosition
     \<Rightarrow> (PositioningMethod \<times> strategy_outcome option) list" where
  "strategies rt textContent pos =
     [(primary_position, Some (Returned (findByPrimaryPosition rt textContent pos))),
      (context_match, findByContextMatch rt textContent pos),
      (text_fingerprint, Some (Returned (findByTextFingerprint rt textContent pos))),
      (structural_path, Some (Returned (findByStructuralPath textContent pos))),
      (fuzzy_match, Some (Returned (findByFuzzyMatch rt textContent pos)))]"

definition make_match :: "TextRange \<Rightarrow> rat \<Rightarrow> PositioningMethod \<Rightarrow> AnnotationMatch" where
  "make_match result confidence m =
     \<lparr> am_range = result, am_confidence = confidence, am_method = m,
       am_strategy = m, validationPassed = True \<rparr>"

text \<open>\<open>matches.reduce((best, current) => current.confidence > best.confidence ? current
  : best)\<close> on a list that is not empty.\<close>

definition best_match :: "AnnotationMatch list \<Rightarrow> AnnotationMatch" where
  "best_match found =
     foldl (\<lambda>best current. if am_confidence current > am_confidence best then current else best)
       (hd found) (tl found)"

text \<open>What follows the loop: the best of the collected matches when its confidence is
  at least 0.5, the failure result otherwise.\<close>

definition failure_result ::
  "AnnotationMatch list \<Rightarrow> jsstring list \<Rightarrow> PositioningMethod list \<Rightarrow> PositioningResult" where
  "failure_result found errs used =
     \<lparr> success = False, position = None, matches = Some found, errors = Some errs,
       res_metadata = \<lparr> totalAttempts = length used, strategiesUsed = used,
                        res_confidence = 0 \<rparr> \<rparr>"

definition after_loop ::
  "AnnotationPosition \<Rightarrow> AnnotationMatch list \<Rightarrow> jsstring list \<Rightarrow> PositioningMethod list
     \<Rightarrow> PositioningResult" where
  "after_loop pos found errs used =
     (if length found > 0
      then let bestMatch = best_match found in
        if am_confidence bestMatch \<ge> 1 / 2
        then \<lparr> success = True,
               position = Some (updatePosition pos (am_range bestMatch)),
               matches = Some found, errors = None,
               res_metadata = \<lparr> totalAttempts = length used, strategiesUsed = used,
                                res_confidence = am_confidence bestMatch \<rparr> \<rparr>
        else failure_result found errs used
      else failure_result found errs used)"

text \<open>The loop \<open>for (const strategy of strategies)\<close> over the strategies still to run,
  with the \<open>matches\<close>, \<open>errors\<close> and \<open>strategiesUsed\<close> collected so far. The method is
  recorded before the strategy runs; a strategy that never returns leaves the whole
  call without a result.\<close>

fun strategy_loop ::
  "js_runtime \<Rightarrow> AnnotationPosition \<Rightarrow> rat
     \<Rightarrow> (PositioningMethod \<times> strategy_outcome option) list
     \<Rightarrow> AnnotationMatch list \<Rightarrow> jsstring list \<Rightarrow> PositioningMethod list
     \<Rightarrow> PositioningResult option" where
  "strategy_loop rt pos minConfidence [] found errs used = Some (after_loop pos found errs used)"
| "strategy_loop rt pos minConfidence ((m, run) # rest) found errs used =
     (case run of
        None \<Rightarrow> None
      | Some (Threw errorMessage) \<Rightarrow>
          strategy_loop rt pos minConfidence rest found
            (errs @ [method_name m @ asc '': '' @ errorMessage]) (used @ [m])
      | Some (Returned None) \<Rightarrow>
          strategy_loop rt pos minConfidence rest found errs (used @ [m])
      | Some (Returned (Some result)) \<Rightarrow>
          if validatePosition rt result pos
          then let confidence = calculateMatchConfidence rt result pos;
                   found' = found @ [make_match result confidence m]
               in if confidence \<ge> minConfidence
                  then Some \<lparr> success = True,
                              position = Some (updatePosition pos result),
                              matches = Some [last found'], errors = None,
                              res_metadata =
                                \<lparr> totalAttempts = length (used @ [m]),
                                  strategiesUsed = used @ [m],
                                  res_confidence = confidence \<rparr> \<rparr>
                  else strategy_loop rt pos minConfidence rest found' errs (used @ [m])
          else strategy_loop rt pos minConfidence rest found errs (used @ [m]))"

definition findAnnotationPosition ::
  "js_runtime \<Rightarrow> jsstring \<Rightarrow> AnnotationPosition \<Rightarrow> rat \<Rightarrow> PositioningResult option" where
  "findAnnotationPosition rt textContent pos minConfidence =
     strategy_loop rt pos minConfidence (strategies rt textContent pos) [] [] []"

text \<open>The default of the parameter \<open>minConfidence\<close>.\<close>

definition default_minConfidence :: rat where
  "default_minConfidence = 7 / 10"

section \<open>A runtime for evaluation\<close>

text \<open>
  To evaluate the model on a concrete input the three runtime facilities need values.
  \<open>ascii_lower\<close> and \<open>ascii_upper\<close> are the case mappings on strings whose letters are
  ASCII (the real mappings leave digits, punctuation, spaces and CJK ideographs as
  they are). \<open>literal_search\<close> is the engine on a pattern with no character of pattern
  syntax in it: such a pattern matches its own text, compared by canonical forms, and
  the first match is the leftmost occurrence. The closed theorems below run it on such
  patterns only.
\<close>

definition ascii_lower :: "cu \<Rightarrow> cu" where
  "ascii_lower c = (if 65 \<le> c \<and> c \<le> 90 then c + 32 else c)"

definition ascii_upper :: "cu \<Rightarrow> cu" where
  "ascii_upper c = (if 97 \<le> c \<and> c \<le> 122 then c - 32 else c)"

fun literal_search_from :: "jsstring \<Rightarrow> jsstring \<Rightarrow> nat \<Rightarrow> regexp_outcome" where
  "literal_search_from p [] i = (if p = [] then FirstMatch i [] else NoMatch)"
| "literal_search_from p (c # cs) i =
     (if length p \<le> length (c # cs) \<and> map ascii_upper (take (length p) (c # cs)) = map ascii_upper p
      then FirstMatch i (take (length p) (c # cs))
      else literal_search_from p cs (Suc i))"

definition literal_search :: "jsstring \<Rightarrow> jsstring \<Rightarrow> regexp_outcome" where
  "literal_search p s = literal_search_from p s 0"

definition ascii_runtime :: js_runtime where
  "ascii_runtime =
     \<lparr> toLowerCase = map ascii_lower, canonicalize = ascii_upper,
       regexp_first = literal_search \<rparr>"

section \<open>Notions used to state the properties\<close>

subsection \<open>The cascade\<close>

text \<open>A strategy ran without ending the loop: it returned or threw (it did not hang), and
  what it returned was \<open>null\<close>, or failed \<open>validatePosition\<close>, or stayed below the
  threshold.\<close>

definition ran_unaccepted ::
  "js_runtime \<Rightarrow> AnnotationPosition \<Rightarrow> rat \<Rightarrow> PositioningMethod \<times> strategy_outcome option
     \<Rightarrow> bool" where
  "ran_unaccepted rt pos minConfidence s =
     (case snd s of
        None \<Rightarrow> False
      | Some (Threw errorMessage) \<Rightarrow> True
      | Some (Returned None) \<Rightarrow> True
      | Some (Returned (Some result)) \<Rightarrow>
          (if validatePosition rt result pos
           then calculateMatchConfidence rt result pos < minConfidence else True))"

text \<open>The matches and the error messages that the loop has collected after such
  strategies.\<close>

definition collected_matches ::
  "js_runtime \<Rightarrow> AnnotationPosition \<Rightarrow> (PositioningMethod \<times> strategy_outcome option) list
     \<Rightarrow> AnnotationMatch list" where
  "collected_matches rt pos ss =
     concat (map (\<lambda>s. case snd s of
                        Some (Returned (Some result)) \<Rightarrow>
                          if validatePosition rt result pos
                          then [make_match result (calculateMatchConfidence rt result pos) (fst s)]
                          else []
                      | _ \<Rightarrow> []) ss)"

definition collected_errors ::
  "(PositioningMethod \<times> strategy_outcome option) list \<Rightarrow> jsstring list" where
  "collected_errors ss =
     concat (map (\<lambda>s. case snd s of
                        Some (Threw errorMessage) \<Rightarrow>
                          [method_name (fst s) @ asc '': '' @ errorMessage]
                      | _ \<Rightarrow> []) ss)"

subsection \<open>Reading a result\<close>

definition reported_confidence :: "PositioningResult \<Rightarrow> rat" where
  "reported_confidence res = res_confidence (res_metadata res)"

definition match_methods :: "PositioningResult \<Rightarrow> PositioningMethod list" where
  "match_methods res = (case matches res of None \<Rightarrow> [] | Some ms \<Rightarrow> map am_method ms)"

definition resolved_start :: "PositioningResult \<Rightarrow> int option" where
  "resolved_start res = map_option (\<lambda>p. startOffset (primary p)) (position res)"

text \<open>A locator with another context hash, and what a caller can observe of a result
  apart from the locator's fields that are carried over unchanged.\<close>

definition with_hash :: "jsstring \<Rightarrow> AnnotationPosition \<Rightarrow> AnnotationPosition" where
  "with_hash h pos = pos \<lparr> context_info := (context_info pos) \<lparr> ctx_hash := h \<rparr> \<rparr>"

definition observable ::
  "PositioningResult \<Rightarrow> bool \<times> AnnotationMatch list option \<times> Primary option \<times> rat option
     \<times> jsstring list option \<times> ResultMetadata" where
  "observable res =
     (success res, matches res, map_option primary (position res),
      map_option (\<lambda>p. pm_confidence (metadata p)) (position res), errors res,
      res_metadata res)"

subsection \<open>The fingerprint search as the specification words it\<close>

text \<open>
  The specification: slide a window the exact length of the stored text across the
  document in steps of \<open>max(1, windowLength / 4)\<close>; keep the windows whose trigram
  fingerprint has a shingle-set Jaccard similarity above 0.3 with the stored
  fingerprint; of these accept the first whose text similarity to the stored text is
  above 0.8, with that similarity as confidence. The definitions of this subsection are
  written from these words and use no definition of the sections on the source above,
  apart from the runtime's string operations and the text similarity, which the
  specification names here without saying what it is: it is the one of
  TextMatchingAlgorithm.
\<close>

text \<open>The starts of the windows: the multiples of the step \<open>max(1, windowLength / 4)\<close>
  at which a window of \<open>windowLength\<close> code units still fits in a text of \<open>len\<close>.\<close>

definition window_starts :: "nat \<Rightarrow> nat \<Rightarrow> nat list" where
  "window_starts len windowLength =
     (if windowLength \<le> len
      then map (\<lambda>k. k * max 1 (windowLength div 4))
             [0 ..< Suc ((len - windowLength) div max 1 (windowLength div 4))]
      else [])"

text \<open>The word 3-grams of a token list: a window of three consecutive tokens slides
  over it, and each 3-gram is its three tokens with a space between them.\<close>

fun word_trigrams :: "jsstring list \<Rightarrow> jsstring list" where
  "word_trigrams (a # b # c # rest) = (a @ [32] @ b @ [32] @ c) # word_trigrams (b # c # rest)"
| "word_trigrams tokens = []"

text \<open>The trigram fingerprint of a text: the \<open>|\<close>-joined list of the word 3-grams of
  its tokens, the tokens being the pieces of the lower-cased text between white space,
  those of length 2 or less left out.\<close>

definition trigram_fingerprint :: "js_runtime \<Rightarrow> jsstring \<Rightarrow> jsstring" where
  "trigram_fingerprint rt t =
     join [124] (word_trigrams (filter (\<lambda>token. \<not> length token \<le> 2)
                                  (split_ws (toLowerCase rt t))))"

text \<open>The shingles of a fingerprint are its pieces between \<open>|\<close>; the Jaccard similarity
  of two sets is the size of their intersection over the size of their union.\<close>

definition shingles :: "jsstring \<Rightarrow> jsstring set" where
  "shingles fp = set (split_char 124 fp)"

definition jaccard :: "'a set \<Rightarrow> 'a set \<Rightarrow> rat" where
  "jaccard A B = of_nat (card (A \<inter> B)) / of_nat (card (A \<union> B))"

definition findByTextFingerprint_spec ::
  "js_runtime \<Rightarrow> jsstring \<Rightarrow> AnnotationPosition \<Rightarrow> TextRange option" where
  "findByTextFingerprint_spec rt textContent pos =
     (let targetText = selectedText (primary pos);
          windowLength = length targetText;
          window = (\<lambda>i. take windowLength (drop i textContent));
          passes_gate = (\<lambda>i. jaccard (shingles (fingerprint pos))
                                (shingles (trigram_fingerprint rt (window i)))
                              > 3 / 10);
          similarity = (\<lambda>i. calculateTextSimilarity_TMA rt targetText (window i))
      in case find (\<lambda>i. similarity i > 4 / 5)
                (filter passes_gate (window_starts (length textContent) windowLength)) of
           None \<Rightarrow> None
         | Some i \<Rightarrow>
             Some \<lparr> r_startOffset = int i, r_endOffset = int i + int windowLength,
                    r_text = window i, r_confidence = Some (similarity i) \<rparr>)"

subsection \<open>The examples of the specification\<close>

text \<open>
  The round-trip example: the document of seventeen code units
  \<open>U+7B2C U+4E00 U+689D U+0020 U+898F U+5B9A U+5982 U+4E0B U+FF1A U+4EFB U+4F55 U+4EBA
  U+4E0D U+5F97 U+002E U+002E U+002E\<close>, the selection of the offsets \<open>[4, 6)\<close> with the text
  before and after it in the document as captured context, and no element path.
\<close>

definition roundtrip_document :: jsstring where
  "roundtrip_document =
     [31532, 19968, 26781, 32, 35215, 23450, 22914, 19979, 65306, 20219, 20309, 20154,
      19981, 24471, 46, 46, 46]"

definition roundtrip_selection :: SelectionData where
  "roundtrip_selection =
     \<lparr> sel_selectedText = [35215, 23450], sel_startOffset = 4, sel_endOffset = 6,
       contextBefore = [31532, 19968, 26781, 32],
       contextAfter = [22914, 19979, 65306, 20219, 20309, 20154, 19981, 24471, 46, 46, 46],
       sel_elementPath = None, pageUrl = None \<rparr>"

definition roundtrip_locator :: AnnotationPosition where
  "roundtrip_locator = calculatePosition 0 (asc ''law-1'') roundtrip_selection"

text \<open>What the round-trip example resolves to (see \<open>roundtrip_resolves\<close>).\<close>

definition roundtrip_result :: PositioningResult where
  "roundtrip_result =
     \<lparr> success = True,
       position = Some (roundtrip_locator
                    \<lparr> metadata := (metadata roundtrip_locator) \<lparr> pm_confidence := 1 \<rparr> \<rparr>),
       matches = Some [make_match \<lparr> r_startOffset = 4, r_endOffset = 6,
                                    r_text = [35215, 23450], r_confidence = Some 1 \<rparr>
                         (49 / 50) primary_position],
       errors = None,
       res_metadata = \<lparr> totalAttempts = 1, strategiesUsed = [primary_position],
                        res_confidence = 49 / 50 \<rparr> \<rparr>"

text \<open>The drift example with ten digits inserted before offset 0.\<close>

definition drift_document :: jsstring where
  "drift_document = asc ''0123456789'' @ roundtrip_document"

text \<open>The range that every strategy finding the selected text in a drifted document
  returns, up to its own confidence.\<close>

definition drifted_range :: "rat \<Rightarrow> TextRange" where
  "drifted_range c =
     \<lparr> r_startOffset = 14, r_endOffset = 16, r_text = [35215, 23450],
       r_confidence = Some c \<rparr>"

text \<open>A selection captured with no context around it: the whole of a three-letter
  document. The document later loses its last letter.\<close>

definition uncontexted_selection :: SelectionData where
  "uncontexted_selection =
     \<lparr> sel_selectedText = asc ''abc'', sel_startOffset = 0, sel_endOffset = 3,
       contextBefore = [], contextAfter = [], sel_elementPath = None, pageUrl = None \<rparr>"

text \<open>The same selection when the document has instead grown by two letters at the
  front: the selected text now stands at offset 2, and the range that the fuzzy search
  returns for it.\<close>

definition shifted_document :: jsstring where
  "shifted_document = asc ''xxabc''"

definition shifted_range :: TextRange where
  "shifted_range =
     \<lparr> r_startOffset = 2, r_endOffset = 5, r_text = asc ''abc'', r_confidence = Some 1 \<rparr>"

text \<open>A locator on the document \<open>Hello World\<close> whose primary fields are given.\<close>

definition greeting :: jsstring where
  "greeting = asc ''Hello World''"

definition greeting_locator :: "int \<Rightarrow> int \<Rightarrow> jsstring \<Rightarrow> AnnotationPosition" where
  "greeting_locator start end' selected =
     \<lparr> primary = \<lparr> startOffset = start, endOffset = end', selectedText = selected \<rparr>,
       context_info = \<lparr> ctx_before = [], ctx_after = asc '' World'', ctx_hash = [48] \<rparr>,
       structural = \<lparr> chapterId = None, articleId = None, sectionId = None,
                      paragraphIndex = None, elementPath = None \<rparr>,
       fingerprint = [48],
       metadata = \<lparr> createdAt = 0, textLength = length selected, pm_confidence = 1 / 2,
                    version = None \<rparr> \<rparr>"

declare fingerprint_loop.simps [simp del]
declare to_hex.simps [simp del]
declare to_decimal_nat.simps [simp del]

section \<open>Lemmas about the loop over the strategies\<close>

lemma strategy_loop_prefix:
  "list_all (ran_unaccepted rt pos mc) pre \<Longrightarrow>
   strategy_loop rt pos mc (pre @ ss) found errs used
     = strategy_loop rt pos mc ss (found @ collected_matches rt pos pre)
         (errs @ collected_errors pre) (used @ map fst pre)"
proof (induction pre arbitrary: found errs used)
  case Nil
  then show ?case by (simp add: collected_matches_def collected_errors_def)
next
  case (Cons s pre)
  obtain m run where s: "s = (m, run)" by (cases s)
  from Cons.prems have rest: "list_all (ran_unaccepted rt pos mc) pre"
    and here: "ran_unaccepted rt pos mc (m, run)" by (simp_all add: s)
  show ?case
  proof (cases run)
    case None
    with here show ?thesis by (simp add: ran_unaccepted_def)
  next
    case (Some out)
    show ?thesis
    proof (cases out)
      case (Threw msg)
      then show ?thesis
        using Cons.IH [OF rest] Some
        by (simp add: s collected_matches_def collected_errors_def)
    next
      case (Returned res)
      show ?thesis
      proof (cases res)
        case None
        then show ?thesis
          using Cons.IH [OF rest] Some Returned
          by (simp add: s collected_matches_def collected_errors_def)
      next
        case (Some result)
        then show ?thesis
          using Cons.IH [OF rest] \<open>run = Some out\<close> Returned here
          by (cases "validatePosition rt result pos")
             (simp_all add: s collected_matches_def collected_errors_def ran_unaccepted_def Let_def)
      qed
    qed
  qed
qed

text \<open>Whatever the loop returns after the last strategy records the methods it was
  given; and when every strategy returns or throws, the loop returns, with the methods
  of the strategies it has run, in their order, at least one of them.\<close>

lemma after_loop_records:
  "strategiesUsed (res_metadata (after_loop pos found errs used)) = used
   \<and> totalAttempts (res_metadata (after_loop pos found errs used)) = length used"
  by (simp add: after_loop_def failure_result_def Let_def)

lemma strategy_loop_returns:
  "list_all (\<lambda>s. snd s \<noteq> None) ss \<Longrightarrow>
   \<exists>res k. strategy_loop rt pos mc ss found errs used = Some res
     \<and> k \<le> length ss \<and> (ss \<noteq> [] \<longrightarrow> 1 \<le> k)
     \<and> strategiesUsed (res_metadata res) = used @ take k (map fst ss)
     \<and> totalAttempts (res_metadata res) = length used + k"
proof (induction ss arbitrary: found errs used)
  case Nil
  then show ?case by (simp add: after_loop_records)
next
  case (Cons s ss)
  obtain m run where s: "s = (m, run)" by (cases s)
  from Cons.prems obtain out where run: "run = Some out"
    and rest: "list_all (\<lambda>s. snd s \<noteq> None) ss" by (auto simp: s)
  have step: "\<exists>res k. strategy_loop rt pos mc (s # ss) found errs used = Some res
     \<and> k \<le> length (s # ss) \<and> (s # ss \<noteq> [] \<longrightarrow> 1 \<le> k)
     \<and> strategiesUsed (res_metadata res) = used @ take k (map fst (s # ss))
     \<and> totalAttempts (res_metadata res) = length used + k"
    if "strategy_loop rt pos mc (s # ss) found errs used
          = strategy_loop rt pos mc ss found' errs' (used @ [m])" for found' errs'
  proof -
    from Cons.IH [OF rest, of found' errs' "used @ [m]"]
    obtain res k where r: "strategy_loop rt pos mc ss found' errs' (used @ [m]) = Some res"
      and k: "k \<le> length ss"
      and u: "strategiesUsed (res_metadata res) = (used @ [m]) @ take k (map fst ss)"
      and t: "totalAttempts (res_metadata res) = length (used @ [m]) + k"
      by blast
    from that r k u t show ?thesis
      by (intro exI [of _ res] exI [of _ "Suc k"]) (simp add: s)
  qed
  show ?case
  proof (cases out)
    case (Threw msg)
    show ?thesis by (rule step) (simp add: s run Threw)
  next
    case (Returned cand)
    show ?thesis
    proof (cases cand)
      case None
      show ?thesis by (rule step) (simp add: s run Returned None)
    next
      case (Some result)
      show ?thesis
      proof (cases "validatePosition rt result pos")
        case False
        show ?thesis by (rule step) (simp add: s run Returned Some False)
      next
        case True
        show ?thesis
        proof (cases "calculateMatchConfidence rt result pos \<ge> mc")
          case False
          show ?thesis by (rule step) (simp add: s run Returned Some True False Let_def)
        next
          case accepted: True
          show ?thesis
            by (intro exI [of _ "the (strategy_loop rt pos mc (s # ss) found errs used)"]
                exI [of _ 1])
               (simp add: s run Returned Some True accepted Let_def)
        qed
      qed
    qed
  qed
qed

lemma strategy_loop_success_position:
  "strategy_loop rt pos mc ss found errs used = Some res \<Longrightarrow> success res \<Longrightarrow>
   \<exists>r. position res = Some (updatePosition pos r)"
proof (induction ss arbitrary: found errs used)
  case Nil
  then show ?case by (auto simp: after_loop_def failure_result_def Let_def split: if_splits)
next
  case (Cons s ss)
  obtain m run where s: "s = (m, run)" by (cases s)
  from Cons.prems show ?case
    by (auto simp: s Let_def split: option.splits strategy_outcome.splits if_splits
        dest: Cons.IH)
qed

section \<open>Lemmas about the context hash\<close>

lemma with_hash_simps:
  "primary (with_hash h pos) = primary pos"
  "structural (with_hash h pos) = structural pos"
  "fingerprint (with_hash h pos) = fingerprint pos"
  "metadata (with_hash h pos) = metadata pos"
  "ctx_before (context_info (with_hash h pos)) = ctx_before (context_info pos)"
  "ctx_after (context_info (with_hash h pos)) = ctx_after (context_info pos)"
  by (simp_all add: with_hash_def)

lemma calculateMatchScore_with_hash:
  "calculateMatchScore rt m (with_hash h pos) = calculateMatchScore rt m pos"
  by (simp add: calculateMatchScore_def calculatePositionSimilarity_def
      calculateLengthSimilarity_def with_hash_simps)

lemma selectBestMatch_with_hash:
  "selectBestMatch rt ms (with_hash h pos) = selectBestMatch rt ms pos"
  by (simp add: selectBestMatch_def calculateMatchScore_with_hash cong: list.case_cong)

lemma findByContextMatch_with_hash:
  "findByContextMatch rt textContent (with_hash h pos) = findByContextMatch rt textContent pos"
  by (simp add: findByContextMatch_def buildContextPattern_def selectBestMatch_with_hash
      with_hash_simps cong: option.case_cong if_cong sum.case_cong)

lemma findByStructuralPath_with_hash:
  "findByStructuralPath textContent (with_hash h pos) = findByStructuralPath textContent pos"
  by (cases "paragraphIndex (structural pos)"; cases "elementPath (structural pos)")
     (simp_all add: findByStructuralPath_def findByStructuralPath_SA_def with_hash_simps)

lemma strategies_with_hash:
  "strategies rt textContent (with_hash h pos) = strategies rt textContent pos"
  by (simp add: strategies_def findByPrimaryPosition_def findByContextMatch_with_hash
      findByTextFingerprint_def findByStructuralPath_with_hash
      findByFuzzyMatch_def with_hash_simps)

lemma scoring_with_hash:
  "validatePosition rt r (with_hash h pos) = validatePosition rt r pos"
  "calculateMatchConfidence rt r (with_hash h pos) = calculateMatchConfidence rt r pos"
  by (simp_all add: validatePosition_def calculateMatchConfidence_def calculatePositionAccuracy_def
      calculateLengthConsistency_def calculateContextMatch_def with_hash_simps)

lemma updatePosition_with_hash:
  "updatePosition (with_hash h pos) r = with_hash h (updatePosition pos r)"
  by (simp add: updatePosition_def with_hash_def)

lemma strategy_loop_with_hash:
  "strategy_loop rt (with_hash h pos) mc ss found errs used
     = map_option (\<lambda>res. res \<lparr> position := map_option (with_hash h) (position res) \<rparr>)
         (strategy_loop rt pos mc ss found errs used)"
proof (induction ss arbitrary: found errs used)
  case Nil
  then show ?case
    by (simp add: after_loop_def failure_result_def Let_def updatePosition_with_hash)
next
  case (Cons s ss)
  obtain m run where s: "s = (m, run)" by (cases s)
  show ?case
    by (simp add: s Cons.IH scoring_with_hash updatePosition_with_hash Let_def
        split: option.splits strategy_outcome.splits)
qed

section \<open>When the context search returns\<close>

lemma first_some_map:
  "first_some (map f xs) = Some y \<Longrightarrow> \<exists>x\<in>set xs. f x = Some y"
proof (induction xs)
  case Nil
  then show ?case by simp
next
  case (Cons x xs)
  then show ?case by (cases "f x") auto
qed

text \<open>A match lies inside the text, and it is not empty when the pattern has a literal.\<close>

lemma match_here_bounds:
  "match_here canon pat s = Some n \<Longrightarrow> n \<le> length s \<and> ((\<exists>c. Lit c \<in> set pat) \<longrightarrow> 0 < n)"
proof (induction canon pat s arbitrary: n rule: match_here.induct)
  case (1 canon s)
  then show ?case by simp
next
  case (2 canon c r s)
  then show ?case by (auto split: list.splits if_splits)
next
  case (3 canon k r s)
  let ?most = "length (takeWhile (\<lambda>c. \<not> is_line_terminator c) (take k s))"
  from "3.prems" have "first_some (map (\<lambda>j. map_option (\<lambda>m. j + m)
      (match_here canon r (drop j s))) (rev [0 ..< Suc ?most])) = Some n"
    by (simp add: Let_def)
  from first_some_map [OF this]
  obtain j where j: "j \<in> set (rev [0 ..< Suc ?most])"
    and m: "map_option (\<lambda>m. j + m) (match_here canon r (drop j s)) = Some n"
    by blast
  from m obtain m' where m': "match_here canon r (drop j s) = Some m'" and n: "n = j + m'"
    by auto
  have "?most \<le> length (take k s)" by (rule length_takeWhile_le)
  with j have jle: "j \<le> length s" by auto
  from "3.IH" [OF refl j m'] have "m' \<le> length (drop j s)"
    and "(\<exists>c. Lit c \<in> set r) \<longrightarrow> 0 < m'" by auto
  with jle n show ?case by auto
qed

lemma regex_exec_bounds:
  assumes "regex_exec canon pat t lastIndex = Some (index, n)"
  shows "lastIndex \<le> index \<and> index + n \<le> length t \<and> ((\<exists>c. Lit c \<in> set pat) \<longrightarrow> 0 < n)"
proof -
  from assms have "first_some (map (\<lambda>s. map_option (Pair s)
      (match_here canon pat (drop s t))) [lastIndex ..< Suc (length t)]) = Some (index, n)"
    by (simp add: regex_exec_def)
  from first_some_map [OF this]
  obtain s where s: "s \<in> set [lastIndex ..< Suc (length t)]"
    and m: "map_option (Pair s) (match_here canon pat (drop s t)) = Some (index, n)"
    by blast
  from m have "s = index" and "match_here canon pat (drop index t) = Some n" by auto
  with s match_here_bounds [of canon pat "drop index t" n] show ?thesis by auto
qed

text \<open>With a literal in the pattern every match moves \<open>lastIndex\<close> forward, and the
  loop of \<open>findMatches\<close> ends.\<close>

lemma findMatches_loop_terminates:
  assumes "\<exists>c. Lit c \<in> set pat"
  shows "\<exists>ms. findMatches_loop canon pat t lastIndex found = Some ms"
proof (induction "Suc (length t) - lastIndex" arbitrary: lastIndex found rule: less_induct)
  case less
  show ?case
  proof (cases "regex_exec canon pat t lastIndex")
    case None
    then show ?thesis by (subst findMatches_loop.simps) simp
  next
    case (Some a)
    obtain index n where a: "a = (index, n)" by (cases a)
    from regex_exec_bounds [OF Some [unfolded a]] assms
    have "lastIndex \<le> index" "index + n \<le> length t" "0 < n" by auto
    then have "Suc (length t) - (index + n) < Suc (length t) - lastIndex" by arith
    from less [OF this] show ?thesis
      by (subst findMatches_loop.simps) (simp add: Some a)
  qed
qed

text \<open>The pattern \<open>.{0,k}\<close> alone matches at every index up to the end of the text,
  with an empty match at the end.\<close>

lemma regex_exec_any:
  assumes "lastIndex \<le> length t"
  shows "regex_exec canon [AnyUpTo k] t lastIndex
    = Some (lastIndex,
        length (takeWhile (\<lambda>c. \<not> is_line_terminator c) (take k (drop lastIndex t))))"
proof -
  from assms
  have "[lastIndex ..< Suc (length t)] = lastIndex # [Suc lastIndex ..< Suc (length t)]"
    by (simp add: upt_conv_Cons)
  then show ?thesis
    by (simp add: regex_exec_def Let_def)
qed

lemma findMatches_loop_any_diverges:
  assumes "findMatches_loop canon pat t lastIndex found = Some ms"
  shows "pat = [AnyUpTo k] \<longrightarrow> lastIndex \<le> length t \<longrightarrow> False"
  using assms
proof (rule findMatches_loop.raw_induct [rotated 1, where P = "\<lambda>canon pat t lastIndex found ms.
         pat = [AnyUpTo k] \<longrightarrow> lastIndex \<le> length t \<longrightarrow> False"])
  fix f canon pat t lastIndex found ms
  assume IH: "\<And>canon pat t lastIndex found ms.
           f canon pat t lastIndex found = Some ms \<Longrightarrow>
           pat = [AnyUpTo k] \<longrightarrow> lastIndex \<le> length t \<longrightarrow> False"
    and step: "(case regex_exec canon pat t lastIndex of
        None \<Rightarrow> Some found
      | Some (index, n) \<Rightarrow>
          f canon pat t (index + n)
            (found @ [\<lparr> m_startOffset = int index, m_endOffset = int index + int n,
                        m_text = take n (drop index t), score = 1,
                        m_method = context_match \<rparr>])) = Some ms"
  show "pat = [AnyUpTo k] \<longrightarrow> lastIndex \<le> length t \<longrightarrow> False"
  proof (intro impI)
    assume pat: "pat = [AnyUpTo k]" and le: "lastIndex \<le> length t"
    let ?n = "length (takeWhile (\<lambda>c. \<not> is_line_terminator c) (take k (drop lastIndex t)))"
    have "?n \<le> length (take k (drop lastIndex t))" by (rule length_takeWhile_le)
    then have "?n \<le> length t - lastIndex" by simp
    with le have le': "lastIndex + ?n \<le> length t" by arith
    from step have "f canon pat t (lastIndex + ?n)
            (found @ [\<lparr> m_startOffset = int lastIndex, m_endOffset = int lastIndex + int ?n,
                        m_text = take ?n (drop lastIndex t), score = 1,
                        m_method = context_match \<rparr>]) = Some ms"
      by (simp add: pat regex_exec_any [OF le])
    from IH [OF this] pat le' show False by simp
  qed
qed

lemma findMatches_empty_context:
  "findMatches canon t [AnyUpTo k] = None"
proof (cases "findMatches canon t [AnyUpTo k]")
  case None
  then show ?thesis .
next
  case (Some ms)
  then have False
    using findMatches_loop_any_diverges [of canon "[AnyUpTo k]" t 0 "[]" ms k]
    by (simp add: findMatches_def)
  then show ?thesis ..
qed

text \<open>The context search returns exactly when the stored context is not empty on both
  sides.\<close>

lemma findByContextMatch_returns_iff:
  "findByContextMatch rt textContent pos \<noteq> None
     \<longleftrightarrow> ctx_before (context_info pos) \<noteq> [] \<or> ctx_after (context_info pos) \<noteq> []"
proof (cases "ctx_before (context_info pos) = [] \<and> ctx_after (context_info pos) = []")
  case True
  then show ?thesis
    by (simp add: findByContextMatch_def buildContextPattern_def escapeRegex_def
        findMatches_empty_context)
next
  case False
  then have "\<exists>c. Lit c \<in> set (buildContextPattern (context_info pos))"
    by (cases "ctx_before (context_info pos)"; cases "ctx_after (context_info pos)")
       (auto simp: buildContextPattern_def escapeRegex_def)
  from findMatches_loop_terminates [OF this]
  obtain ms where
    "findMatches (canonicalize rt) textContent (buildContextPattern (context_info pos)) = Some ms"
    unfolding findMatches_def by blast
  with False show ?thesis
    by (auto simp: findByContextMatch_def Let_def split: sum.splits)
qed

text \<open>So a call on a locator with some stored context returns, and the methods it
  reports are the first \<open>totalAttempts\<close> of the fixed order.\<close>

lemma findAnnotationPosition_returns:
  assumes "ctx_before (context_info pos) \<noteq> [] \<or> ctx_after (context_info pos) \<noteq> []"
  shows "\<exists>res k. findAnnotationPosition rt textContent pos minConfidence = Some res
     \<and> 1 \<le> k \<and> k \<le> 5
     \<and> strategiesUsed (res_metadata res)
       = take k [primary_position, context_match, text_fingerprint, structural_path, fuzzy_match]
     \<and> totalAttempts (res_metadata res) = k"
proof -
  from assms have "findByContextMatch rt textContent pos \<noteq> None"
    by (simp only: findByContextMatch_returns_iff)
  then have "list_all (\<lambda>s. snd s \<noteq> None) (strategies rt textContent pos)"
    by (simp add: strategies_def)
  from strategy_loop_returns [OF this, of rt pos minConfidence "[]" "[]" "[]"]
  obtain res k
    where "strategy_loop rt pos minConfidence (strategies rt textContent pos) [] [] [] = Some res"
      and "k \<le> length (strategies rt textContent pos)"
      and "strategies rt textContent pos \<noteq> [] \<longrightarrow> 1 \<le> k"
      and "strategiesUsed (res_metadata res) = [] @ take k (map fst (strategies rt textContent pos))"
      and "totalAttempts (res_metadata res) = length ([] :: PositioningMethod list) + k"
    by blast
  moreover have "map fst (strategies rt textContent pos)
      = [primary_position, context_match, text_fingerprint, structural_path, fuzzy_match]"
    and "length (strategies rt textContent pos) = 5"
    and "strategies rt textContent pos \<noteq> []"
    by (simp_all add: strategies_def)
  ultimately show ?thesis
    by (intro exI [of _ res] exI [of _ k]) (simp add: findAnnotationPosition_def)
qed

section \<open>Lemmas about the fingerprint search\<close>

lemma slice_window:
  "i + w \<le> length s \<Longrightarrow> slice s (int i) (int i + int w) = take w (drop i s)"
  by (simp add: slice_def Let_def)

lemma window_step_pos: "0 < window_step w"
  by (simp add: window_step_def)

text \<open>\<open>compareFingerprints\<close> is the Jaccard similarity of the two shingle sets against
  0.3; the sets are never both empty, so the guard \<open>union.size || 1\<close> is idle.\<close>

lemma split_char_nonempty: "split_char d s \<noteq> []"
  by (induction s) (auto split: list.splits)

lemma compareFingerprints_jaccard:
  "compareFingerprints fp1 fp2 \<longleftrightarrow> jaccard (shingles fp1) (shingles fp2) > 3 / 10"
proof -
  let ?t1 = "split_char 124 fp1" and ?t2 = "split_char 124 fp2"
  have "set (filter (\<lambda>x. x \<in> set ?t2) (remdups ?t1)) = set ?t1 \<inter> set ?t2"
    by auto
  then have i: "set_size (filter (\<lambda>x. x \<in> set ?t2) (remdups ?t1))
      = card (set ?t1 \<inter> set ?t2)"
    by (simp add: set_size_def length_remdups_card_conv)
  have u: "set_size (remdups ?t1 @ remdups ?t2) = card (set ?t1 \<union> set ?t2)"
    by (simp add: set_size_def length_remdups_card_conv)
  have "set ?t1 \<noteq> {}" by (simp add: split_char_nonempty)
  then have n: "card (set ?t1 \<union> set ?t2) \<noteq> 0" by simp
  show ?thesis
    unfolding compareFingerprints_def Let_def shingles_def jaccard_def set_remdups i u
    using n by simp
qed

text \<open>The source's loop over the indices of the word list makes the word 3-grams, and
  \<open>generateTextFingerprint\<close> of TextMatchingAlgorithm is the trigram fingerprint.\<close>

lemma trigrams_of_short:
  "trigrams_of [] = []" "trigrams_of [a] = []" "trigrams_of [a, b] = []"
  by (simp_all add: trigrams_of_def)

lemma trigrams_of_step:
  "trigrams_of (a # b # c # rest) = (a @ [32] @ b @ [32] @ c) # trigrams_of (b # c # rest)"
proof -
  have "[0 ..< Suc (length rest)] = 0 # map Suc [0 ..< length rest]"
    by (simp only: upt_conv_Cons [OF zero_less_Suc] map_Suc_upt)
  then show ?thesis
    by (simp add: trigrams_of_def del: upt_Suc)
qed

lemma trigrams_of_word_trigrams: "trigrams_of tokens = word_trigrams tokens"
  by (induction tokens rule: word_trigrams.induct)
     (simp_all add: trigrams_of_step trigrams_of_short)

lemma generateTextFingerprint_TMA_trigram:
  "generateTextFingerprint_TMA rt t = trigram_fingerprint rt t"
proof -
  have "(\<lambda>word :: jsstring. length word > 2) = (\<lambda>token. \<not> length token \<le> 2)"
    by (simp add: fun_eq_iff not_le)
  then show ?thesis
    by (simp add: generateTextFingerprint_TMA_def trigram_fingerprint_def Let_def
        trigrams_of_word_trigrams)
qed

text \<open>The loop, entered at the \<open>k\<close>-th window, finds what a search through the
  remaining window starts finds.\<close>

lemma fingerprint_loop_windows:
  assumes fits: "length target \<le> length t"
    and k: "k \<le> Suc ((length t - length target) div window_step (length target))"
  shows "fingerprint_loop rt t target fp (k * window_step (length target))
     = (case find (\<lambda>i. calculateTextSimilarity_TMA rt target (take (length target) (drop i t))
                        > 4 / 5)
              (filter (\<lambda>i. compareFingerprints fp
                              (generateTextFingerprint_TMA rt (take (length target) (drop i t))))
                 (map (\<lambda>j. j * window_step (length target))
                    [k ..< Suc ((length t - length target) div window_step (length target))])) of
          None \<Rightarrow> None
        | Some i \<Rightarrow>
            Some \<lparr> r_startOffset = int i, r_endOffset = int i + int (length target),
                   r_text = take (length target) (drop i t),
                   r_confidence = Some (calculateTextSimilarity_TMA rt target
                                          (take (length target) (drop i t))) \<rparr>)"
  using k
proof (induction "Suc ((length t - length target) div window_step (length target)) - k"
    arbitrary: k)
  case 0
  let ?step = "window_step (length target)"
  let ?q = "(length t - length target) div ?step"
  from 0 have keq: "k = Suc ?q" by simp
  define a where "a = k * ?step"
  have "length t - length target < ?step + ?q * ?step"
    by (rule dividend_less_div_times [OF window_step_pos])
  moreover have "a = ?step + ?q * ?step"
    unfolding a_def keq by (rule mult_Suc)
  ultimately have "\<not> a \<le> length t - length target" by linarith
  with fits have "\<not> int a \<le> int (length t) - int (length target)" by linarith
  then have "fingerprint_loop rt t target fp a = None"
    by (subst fingerprint_loop.simps) (simp only: Let_def if_False)
  moreover have "[k ..< Suc ?q] = []"
    unfolding keq by (rule upt_rec [THEN trans]) simp
  ultimately show ?case
    unfolding a_def by (simp only: list.map filter.simps find.simps option.case)
next
  case (Suc d)
  let ?step = "window_step (length target)"
  let ?q = "(length t - length target) div ?step"
  from Suc.hyps(2) have klt: "k \<le> ?q" by simp
  then have "k * ?step \<le> length t - length target"
    using window_step_pos [of "length target"] by (simp add: less_eq_div_iff_mult_less_eq)
  with fits have inside: "k * ?step + length target \<le> length t" by simp
  then have cond: "int (k * ?step) \<le> int (length t) - int (length target)" by linarith
  have upt: "[k ..< Suc ?q] = k # [Suc k ..< Suc ?q]"
    using klt by (simp add: upt_conv_Cons del: upt_Suc)
  have IH: "fingerprint_loop rt t target fp (k * ?step + ?step)
     = (case find (\<lambda>i. calculateTextSimilarity_TMA rt target (take (length target) (drop i t))
                        > 4 / 5)
              (filter (\<lambda>i. compareFingerprints fp
                              (generateTextFingerprint_TMA rt (take (length target) (drop i t))))
                 (map (\<lambda>j. j * ?step) [Suc k ..< Suc ?q])) of
          None \<Rightarrow> None
        | Some i \<Rightarrow>
            Some \<lparr> r_startOffset = int i, r_endOffset = int i + int (length target),
                   r_text = take (length target) (drop i t),
                   r_confidence = Some (calculateTextSimilarity_TMA rt target
                                          (take (length target) (drop i t))) \<rparr>)"
  proof -
    have d: "d = Suc ?q - Suc k" using Suc.hyps(2) by arith
    have k': "Suc k \<le> Suc ?q" using klt by simp
    have e: "k * ?step + ?step = Suc k * ?step" by simp
    show ?thesis
      unfolding e by (rule Suc.hyps(1) [OF d k'])
  qed
  show ?case
    apply (subst fingerprint_loop.simps)
    apply (simp only: Let_def cond if_True slice_window [OF inside] IH upt list.map filter.simps
        find.simps)
    apply (simp del: upt_Suc)
    done
qed

section \<open>The locator of the round-trip example\<close>

text \<open>When the document still has the selected text at the stored offsets, the first
  strategy ends the call.\<close>

lemma primary_hit:
  assumes "0 \<le> sel_startOffset sel" and "sel_startOffset sel < sel_endOffset sel"
    and "sel_endOffset sel \<le> int (length documentText)"
    and "slice documentText (sel_startOffset sel) (sel_endOffset sel) = sel_selectedText sel"
  shows "findAnnotationPosition rt documentText (calculatePosition now textId sel)
           default_minConfidence
     = Some \<lparr> success = True,
              position = Some ((calculatePosition now textId sel)
                           \<lparr> metadata := (metadata (calculatePosition now textId sel))
                                          \<lparr> pm_confidence := 1 \<rparr> \<rparr>),
              matches = Some [\<lparr> am_range = \<lparr> r_startOffset = sel_startOffset sel,
                                              r_endOffset = sel_endOffset sel,
                                              r_text = sel_selectedText sel,
                                              r_confidence = Some 1 \<rparr>,
                                am_confidence = 49 / 50, am_method = primary_position,
                                am_strategy = primary_position, validationPassed = True \<rparr>],
              errors = None,
              res_metadata = \<lparr> totalAttempts = 1, strategiesUsed = [primary_position],
                               res_confidence = 49 / 50 \<rparr> \<rparr>"
proof -
  let ?pos = "calculatePosition now textId sel"
  let ?r = "\<lparr> r_startOffset = sel_startOffset sel, r_endOffset = sel_endOffset sel,
             r_text = sel_selectedText sel, r_confidence = Some 1 \<rparr>"
  have prim: "primary ?pos = \<lparr> startOffset = sel_startOffset sel, endOffset = sel_endOffset sel,
                   selectedText = sel_selectedText sel \<rparr>"
    by (simp add: calculatePosition_def)
  have ne: "sel_selectedText sel \<noteq> []"
    using assms by (auto simp: slice_def Let_def min_def split: if_splits)
  have found: "findByPrimaryPosition rt documentText ?pos = Some ?r"
    using assms by (simp add: findByPrimaryPosition_def prim Let_def)
  have valid: "validatePosition rt ?r ?pos"
    using ne by (simp add: validatePosition_def prim Let_def calculateTextSimilarity_PS_def)
  have conf: "calculateMatchConfidence rt ?r ?pos = 49 / 50"
    using ne by (simp add: calculateMatchConfidence_def prim Let_def calculateTextSimilarity_PS_def
        calculatePositionAccuracy_def calculateLengthConsistency_def calculateContextMatch_def)
  have upd: "updatePosition ?pos ?r
      = ?pos \<lparr> metadata := (metadata ?pos) \<lparr> pm_confidence := 1 \<rparr> \<rparr>"
    by (simp add: updatePosition_def calculatePosition_def)
  show ?thesis
    by (simp add: findAnnotationPosition_def strategies_def found valid conf upd
        default_minConfidence_def make_match_def Let_def)
qed

lemma roundtrip_conditions:
  "0 \<le> sel_startOffset roundtrip_selection"
  "sel_startOffset roundtrip_selection < sel_endOffset roundtrip_selection"
  "sel_endOffset roundtrip_selection \<le> int (length roundtrip_document)"
  "slice roundtrip_document (sel_startOffset roundtrip_selection)
     (sel_endOffset roundtrip_selection) = sel_selectedText roundtrip_selection"
  by (simp_all add: roundtrip_selection_def roundtrip_document_def slice_def Let_def)

lemma roundtrip_resolves:
  "findAnnotationPosition ascii_runtime roundtrip_document roundtrip_locator
     default_minConfidence = Some roundtrip_result"
  using primary_hit [OF roundtrip_conditions, of ascii_runtime 0 "asc ''law-1''"]
  by (simp add: roundtrip_result_def roundtrip_locator_def make_match_def roundtrip_selection_def)

lemma roundtrip_primary:
  "primary (calculatePosition now textId roundtrip_selection)
     = \<lparr> startOffset = 4, endOffset = 6, selectedText = [35215, 23450] \<rparr>"
  by (simp add: calculatePosition_def roundtrip_selection_def)

lemma roundtrip_fingerprint:
  "fingerprint (calculatePosition now textId roundtrip_selection) = [48]"
  by (simp add: calculatePosition_def roundtrip_selection_def generateTextFingerprint_PS_def
      Let_def is_ws_def trigrams_of_def sha256_def hex_digit_def to_hex.simps)

lemma roundtrip_pattern:
  "buildContextPattern (context_info (calculatePosition now textId roundtrip_selection))
     = [Lit 31532, Lit 19968, Lit 26781, Lit 32, AnyUpTo 200, Lit 22914, Lit 19979, Lit 65306,
        Lit 20219, Lit 20309, Lit 20154, Lit 19981, Lit 24471, Lit 46, Lit 46, Lit 46]"
  by (simp add: calculatePosition_def roundtrip_selection_def buildContextPattern_def
      escapeRegex_def slice_from_def slice_def Let_def)

section \<open>The strategies on the drifted document\<close>

text \<open>The document of the round-trip example with any ten ASCII code units inserted
  before offset 0. On such text \<open>ascii_runtime\<close> is the real runtime.\<close>

lemma ten_elements:
  assumes "length (xs :: 'a list) = 10"
  obtains a0 a1 a2 a3 a4 a5 a6 a7 a8 a9 where "xs = [a0, a1, a2, a3, a4, a5, a6, a7, a8, a9]"
proof -
  from assms
  have "\<exists>a0 a1 a2 a3 a4 a5 a6 a7 a8 a9. xs = [a0, a1, a2, a3, a4, a5, a6, a7, a8, a9]"
    by (simp add: eval_nat_numeral length_Suc_conv) blast
  with that show ?thesis by blast
qed

lemma ascii_upper_high: "c < 128 \<Longrightarrow> 128 \<le> d \<Longrightarrow> (ascii_upper c = d) = False"
  by (simp add: ascii_upper_def) arith

lemma ascii_upper_other: "c < 97 \<or> 122 < c \<Longrightarrow> ascii_upper c = c"
  by (auto simp: ascii_upper_def)

lemma split_ws_length: "w \<in> set (split_ws s) \<Longrightarrow> length w \<le> length s"
proof (induction s arbitrary: w rule: split_ws.induct)
  case 1
  then show ?case by simp
next
  case (2 c cs)
  show ?case
  proof (cases "is_ws c")
    case True
    with "2.prems" have "w = [] \<or> w \<in> set (split_ws (dropWhile is_ws cs))" by simp
    then show ?thesis
    proof
      assume "w = []" then show ?thesis by simp
    next
      assume "w \<in> set (split_ws (dropWhile is_ws cs))"
      from "2.IH"(1) [OF True this] have "length w \<le> length (dropWhile is_ws cs)" .
      also have "\<dots> \<le> length cs" by (rule length_dropWhile_le)
      finally show ?thesis by simp
    qed
  next
    case False
    show ?thesis
    proof (cases "split_ws cs")
      case Nil
      with False "2.prems" show ?thesis by simp
    next
      case (Cons v vs)
      with False "2.prems" have "w = c # v \<or> w \<in> set vs" by simp
      then show ?thesis
      proof
        assume "w = c # v"
        moreover from "2.IH"(2) [OF False, of v] Cons have "length v \<le> length cs" by simp
        ultimately show ?thesis by simp
      next
        assume "w \<in> set vs"
        with "2.IH"(2) [OF False, of w] Cons have "length w \<le> length cs" by simp
        then show ?thesis by simp
      qed
    qed
  qed
qed

text \<open>A window of at most two code units has no word longer than two, so no trigram:
  its fingerprint is the empty string, which shares no shingle with the hash \<open>0\<close>.\<close>

lemma short_fingerprint:
  assumes "length s \<le> 2"
  shows "generateTextFingerprint_TMA ascii_runtime s = []"
proof -
  have "\<not> 2 < length w" if "w \<in> set (split_ws (map ascii_lower s))" for w
    using split_ws_length [OF that] assms by simp
  then have "filter (\<lambda>word. length word > 2) (split_ws (map ascii_lower s)) = []"
    by (simp add: filter_empty_conv)
  then show ?thesis
    by (simp add: generateTextFingerprint_TMA_def ascii_runtime_def trigrams_of_def)
qed

lemma zero_hash_never_matches: "compareFingerprints [48] [] = False"
  by (simp add: compareFingerprints_def set_size_def)

lemma fingerprint_loop_short:
  "length target \<le> 2 \<Longrightarrow> fingerprint_loop ascii_runtime t target [48] i = None"
proof (induction ascii_runtime t target "[48 :: nat]" i rule: fingerprint_loop.induct)
  case (1 t target i)
  show ?case
  proof (cases "int i \<le> int (length t) - int (length target)")
    case False
    then show ?thesis by (subst fingerprint_loop.simps) (simp add: Let_def)
  next
    case True
    have "length (slice t (int i) (int i + int (length target))) \<le> length target"
      by (simp add: slice_def Let_def)
    with "1.prems" have short: "length (slice t (int i) (int i + int (length target))) \<le> 2"
      by simp
    have gate: "\<not> compareFingerprints [48]
       (generateTextFingerprint_TMA ascii_runtime (slice t (int i) (int i + int (length target))))"
      by (simp add: short_fingerprint [OF short] zero_hash_never_matches)
    from "1.hyps"(2) [OF refl True refl refl gate] "1.prems"
    show ?thesis
      by (subst fingerprint_loop.simps) (simp add: Let_def True gate)
  qed
qed

lemma set_collapse_ws: "set (collapse_ws s) \<subseteq> insert 32 (set s)"
proof (induction s rule: collapse_ws.induct)
  case 1
  then show ?case by simp
next
  case (2 c cs)
  have "set (dropWhile is_ws cs) \<subseteq> set cs" by (auto dest: set_dropWhileD)
  with 2 show ?case by (cases "is_ws c") auto
qed

lemma set_trim: "set (trim s) \<subseteq> set s"
  by (auto simp: trim_def dest!: set_dropWhileD)

lemma normalizeText_PS_ascii:
  assumes "list_all (\<lambda>c. c < 128) s"
  shows "list_all (\<lambda>c. c < 128) (normalizeText_PS ascii_runtime s)"
proof -
  have "set (normalizeText_PS ascii_runtime s)
      \<subseteq> ascii_lower ` {c \<in> insert 32 (set s). is_word c \<or> is_cjk c}"
    using set_trim [of "map ascii_lower (filter (\<lambda>c. is_word c \<or> is_cjk c) (collapse_ws s))"]
      set_collapse_ws [of s]
    by (auto simp: normalizeText_PS_def ascii_runtime_def)
  moreover have "c < 128 \<Longrightarrow> is_word c \<or> is_cjk c \<Longrightarrow> ascii_lower c < 128" for c
    by (auto simp: ascii_lower_def is_word_def is_cjk_def)
  ultimately show ?thesis
    using assms by (auto simp: list_all_iff)
qed

lemma drift_primary:
  assumes "length ins = 10" and "list_all (\<lambda>c. c < 128) ins"
  shows "findByPrimaryPosition ascii_runtime (ins @ roundtrip_document)
           (calculatePosition now textId roundtrip_selection) = None"
proof -
  from assms(1) obtain a0 a1 a2 a3 a4 a5 a6 a7 a8 a9
    where ins: "ins = [a0, a1, a2, a3, a4, a5, a6, a7, a8, a9]" by (rule ten_elements)
  from assms(2) have small: "list_all (\<lambda>c. c < 128) [a4, a5]" by (simp add: ins)
  have "\<not> list_all (\<lambda>c. c < 128) [35215, 23450 :: nat]" by simp
  with normalizeText_PS_ascii [OF small]
  have n: "normalizeText_PS ascii_runtime [a4, a5] \<noteq> [35215, 23450]" by metis
  have m: "normalizeText_PS ascii_runtime [35215, 23450] = [35215, 23450]"
    by (simp add: normalizeText_PS_def ascii_runtime_def is_ws_def is_word_def is_cjk_def
        trim_def ascii_lower_def)
  have s: "slice (ins @ roundtrip_document) 4 6 = [a4, a5]"
    by (simp add: ins slice_def Let_def roundtrip_document_def)
  from small have "[a4, a5] \<noteq> [35215, 23450]" by auto
  moreover have "length (ins @ roundtrip_document) = 27"
    by (simp add: ins roundtrip_document_def)
  ultimately show ?thesis
    using n by (simp add: findByPrimaryPosition_def roundtrip_primary Let_def s m)
qed

lemma drift_context:
  assumes "length ins = 10" and "list_all (\<lambda>c. c < 128) ins"
  shows "findByContextMatch ascii_runtime (ins @ roundtrip_document)
           (calculatePosition now textId roundtrip_selection)
    = Some (Returned (Some (drifted_range (19 / 20))))"
proof -
  from assms(1) obtain a0 a1 a2 a3 a4 a5 a6 a7 a8 a9
    where ins: "ins = [a0, a1, a2, a3, a4, a5, a6, a7, a8, a9]" by (rule ten_elements)
  from assms(2) have small: "a0 < 128" "a1 < 128" "a2 < 128" "a3 < 128" "a4 < 128"
    "a5 < 128" "a6 < 128" "a7 < 128" "a8 < 128" "a9 < 128" by (simp_all add: ins)
  let ?pat = "buildContextPattern (context_info (calculatePosition now textId roundtrip_selection))"
  have e1: "regex_exec ascii_upper ?pat (ins @ roundtrip_document) 0 = Some (10, 17)"
    unfolding roundtrip_pattern
    by (simp add: regex_exec_def ins roundtrip_document_def small ascii_upper_high
        ascii_upper_other is_line_terminator_def upt_rec Let_def)
  have e2: "regex_exec ascii_upper ?pat (ins @ roundtrip_document) 27 = None"
    unfolding roundtrip_pattern
    by (simp add: regex_exec_def ins roundtrip_document_def ascii_upper_other
        is_line_terminator_def upt_rec Let_def)
  show ?thesis
    apply (simp add: findByContextMatch_def findMatches_def Let_def ascii_runtime_def)
    apply (subst findMatches_loop.simps)
    apply (simp add: e1)
    apply (subst findMatches_loop.simps)
    apply (simp add: e2)
    apply (simp add: selectBestMatch_def locateExactText_def Let_def roundtrip_primary
        ins roundtrip_document_def slice_def indexOf_def starts_with_def drifted_range_def)
    done
qed

lemma drift_fingerprint:
  "findByTextFingerprint ascii_runtime t (calculatePosition now textId roundtrip_selection) = None"
  by (simp add: findByTextFingerprint_def roundtrip_primary roundtrip_fingerprint
      fingerprint_loop_short)

lemma drift_structural:
  "findByStructuralPath t (calculatePosition now textId roundtrip_selection) = None"
  by (simp add: findByStructuralPath_def calculatePosition_def roundtrip_selection_def analyze_def
      truthy_string_def truthy_number_def calculateParagraphIndex_def)

lemma drift_fuzzy:
  assumes "length ins = 10" and "list_all (\<lambda>c. c < 128) ins"
  shows "findByFuzzyMatch ascii_runtime (ins @ roundtrip_document)
           (calculatePosition now textId roundtrip_selection)
    = Some (drifted_range 1)"
proof -
  from assms(1) obtain a0 a1 a2 a3 a4 a5 a6 a7 a8 a9
    where ins: "ins = [a0, a1, a2, a3, a4, a5, a6, a7, a8, a9]" by (rule ten_elements)
  from assms(2) have small: "a0 < 128" "a1 < 128" "a2 < 128" "a3 < 128" "a4 < 128"
    "a5 < 128" "a6 < 128" "a7 < 128" "a8 < 128" "a9 < 128" by (simp_all add: ins)
  have "literal_search [35215, 23450] (ins @ roundtrip_document) = FirstMatch 14 [35215, 23450]"
    by (simp add: literal_search_def ins roundtrip_document_def small ascii_upper_high
        ascii_upper_other)
  then show ?thesis
    by (simp add: findByFuzzyMatch_def roundtrip_primary Let_def is_ws_def ascii_runtime_def
        calculateTextSimilarity_TMA_def drifted_range_def)
qed

lemma drift_strategies:
  assumes "length ins = 10" and "list_all (\<lambda>c. c < 128) ins"
  shows "strategies ascii_runtime (ins @ roundtrip_document)
           (calculatePosition now textId roundtrip_selection)
    = [(primary_position, Some (Returned None)),
       (context_match, Some (Returned (Some (drifted_range (19 / 20))))),
       (text_fingerprint, Some (Returned None)),
       (structural_path, Some (Returned None)),
       (fuzzy_match, Some (Returned (Some (drifted_range 1))))]"
  by (simp add: strategies_def drift_primary [OF assms] drift_context [OF assms]
      drift_fingerprint drift_structural drift_fuzzy [OF assms])

lemma drift_scoring:
  "validatePosition rt (drifted_range c) (calculatePosition now textId roundtrip_selection)"
  "calculateMatchConfidence rt (drifted_range c) (calculatePosition now textId roundtrip_selection)
     = 17 / 25"
  by (simp_all add: validatePosition_def calculateMatchConfidence_def roundtrip_primary Let_def
      calculateTextSimilarity_PS_def calculatePositionAccuracy_def calculateLengthConsistency_def
      calculateContextMatch_def drifted_range_def)

lemma digits_are_ascii:
  "length (asc ''0123456789'') = 10" "list_all (\<lambda>c. c < 128) (asc ''0123456789'')"
  by (simp_all add: asc_def)

section \<open>The unresolvable example\<close>

text \<open>The unresolvable example of the specification: the selected text and all its
  context are deleted from the document, here the whole text. The stored context is not
  empty, the context search returns, and the call ends in the failure result after all
  five strategies.\<close>

lemma unresolvable_example:
  "findAnnotationPosition ascii_runtime [] (calculatePosition now textId roundtrip_selection)
     minConfidence
   = Some (failure_result [] []
       [primary_position, context_match, text_fingerprint, structural_path, fuzzy_match])"
proof -
  let ?pos = "calculatePosition now textId roundtrip_selection"
  have p: "findByPrimaryPosition ascii_runtime [] ?pos = None"
    by (simp add: findByPrimaryPosition_def roundtrip_primary)
  have e: "regex_exec ascii_upper (buildContextPattern (context_info ?pos)) [] 0 = None"
    unfolding roundtrip_pattern by (simp add: regex_exec_def)
  have c: "findByContextMatch ascii_runtime [] ?pos = Some (Returned None)"
    apply (simp add: findByContextMatch_def findMatches_def Let_def ascii_runtime_def)
    apply (subst findMatches_loop.simps)
    apply (simp add: e)
    done
  have z: "findByFuzzyMatch ascii_runtime [] ?pos = None"
    by (simp add: findByFuzzyMatch_def roundtrip_primary Let_def is_ws_def ascii_runtime_def
        literal_search_def findBestSubstringMatch_def normalizeText_TMA_def trim_def
        is_word_def is_cjk_def ascii_lower_def indexOf_def)
  show ?thesis
    by (simp add: findAnnotationPosition_def strategies_def p c z drift_fingerprint
        drift_structural after_loop_def)
qed

section \<open>The cascade when its strategies return\<close>

text \<open>
  The strategies are listed in the fixed order primary_position, context_match,
  text_fingerprint, structural_path, fuzzy_match, and the call is the loop over this
  list. For the loop over any list of strategies: after strategies that have returned
  \<open>null\<close>, an invalid or a low candidate, or have thrown (\<open>ran_unaccepted\<close>), a
  validated candidate whose recomputed confidence reaches the threshold is returned at
  once as success, with the methods run so far, whatever the later strategies would do;
  and when no strategy is accepted the result is the one of \<open>after_loop\<close>, which
  records every method (\<open>after_loop_records\<close>). A strategy that does not return is not
  covered: after it there is no result at all.
\<close>

lemma cascade_on_returning_strategies:
  "map fst (strategies rt textContent pos)
     = [primary_position, context_match, text_fingerprint, structural_path, fuzzy_match]
   \<and> findAnnotationPosition rt textContent pos minConfidence
       = strategy_loop rt pos minConfidence (strategies rt textContent pos) [] [] []
   \<and> (\<forall>pre m result rest.
         list_all (ran_unaccepted rt pos minConfidence) pre
         \<and> validatePosition rt result pos
         \<and> calculateMatchConfidence rt result pos \<ge> minConfidence
       \<longrightarrow> strategy_loop rt pos minConfidence
             (pre @ (m, Some (Returned (Some result))) # rest) [] [] []
           = Some \<lparr> success = True,
                    position = Some (updatePosition pos result),
                    matches = Some [make_match result (calculateMatchConfidence rt result pos) m],
                    errors = None,
                    res_metadata =
                      \<lparr> totalAttempts = length pre + 1,
                        strategiesUsed = map fst pre @ [m],
                        res_confidence = calculateMatchConfidence rt result pos \<rparr> \<rparr>)
   \<and> (\<forall>ss. list_all (ran_unaccepted rt pos minConfidence) ss
       \<longrightarrow> strategy_loop rt pos minConfidence ss [] [] []
           = Some (after_loop pos (collected_matches rt pos ss) (collected_errors ss)
                     (map fst ss)))"
  by (auto simp: strategies_def findAnnotationPosition_def strategy_loop_prefix Let_def
      strategy_loop_prefix [where ss = "[]", simplified])

text \<open>On the drifted document of the specification's example, with the threshold 0.6:
  the primary recheck returns \<open>null\<close>, the candidate of the context search is accepted,
  and the three later strategies are not run.\<close>

lemma cascade_short_circuit_example:
  "map fst (strategies ascii_runtime drift_document roundtrip_locator)
     = [primary_position, context_match, text_fingerprint, structural_path, fuzzy_match]
   \<and> findAnnotationPosition ascii_runtime drift_document roundtrip_locator (3 / 5)
     = Some \<lparr> success = True,
              position = Some (updatePosition roundtrip_locator (drifted_range (19 / 20))),
              matches = Some [make_match (drifted_range (19 / 20)) (17 / 25) context_match],
              errors = None,
              res_metadata = \<lparr> totalAttempts = 2,
                               strategiesUsed = [primary_position, context_match],
                               res_confidence = 17 / 25 \<rparr> \<rparr>"
proof -
  let ?pre = "[(primary_position, Some (Returned (None :: TextRange option)))]"
  let ?rest = "[(text_fingerprint, Some (Returned None)),
                (structural_path, Some (Returned None)),
                (fuzzy_match, Some (Returned (Some (drifted_range 1))))]"
  note T = cascade_on_returning_strategies
    [of ascii_runtime drift_document roundtrip_locator "3 / 5"]
  have s: "strategies ascii_runtime drift_document roundtrip_locator
      = ?pre @ (context_match, Some (Returned (Some (drifted_range (19 / 20))))) # ?rest"
    using drift_strategies [OF digits_are_ascii, of 0 "asc ''law-1''"]
    by (simp add: drift_document_def roundtrip_locator_def)
  have pre: "list_all (ran_unaccepted ascii_runtime roundtrip_locator (3 / 5)) ?pre"
    by (simp add: ran_unaccepted_def)
  have v: "validatePosition ascii_runtime (drifted_range (19 / 20)) roundtrip_locator"
    and c: "calculateMatchConfidence ascii_runtime (drifted_range (19 / 20)) roundtrip_locator
      = 17 / 25"
    by (simp_all add: roundtrip_locator_def drift_scoring)
  from c have c': "calculateMatchConfidence ascii_runtime (drifted_range (19 / 20))
      roundtrip_locator \<ge> 3 / 5" by simp
  from T pre v c'
  have "strategy_loop ascii_runtime roundtrip_locator (3 / 5)
          (?pre @ (context_match, Some (Returned (Some (drifted_range (19 / 20))))) # ?rest)
          [] [] []
      = Some \<lparr> success = True,
               position = Some (updatePosition roundtrip_locator (drifted_range (19 / 20))),
               matches = Some [make_match (drifted_range (19 / 20))
                   (calculateMatchConfidence ascii_runtime (drifted_range (19 / 20))
                      roundtrip_locator) context_match],
               errors = None,
               res_metadata =
                 \<lparr> totalAttempts = length ?pre + 1,
                   strategiesUsed = map fst ?pre @ [context_match],
                   res_confidence = calculateMatchConfidence ascii_runtime
                     (drifted_range (19 / 20)) roundtrip_locator \<rparr> \<rparr>"
    by blast
  moreover from T have "findAnnotationPosition ascii_runtime drift_document roundtrip_locator (3 / 5)
      = strategy_loop ascii_runtime roundtrip_locator (3 / 5)
          (strategies ascii_runtime drift_document roundtrip_locator) [] [] []"
    by blast
  moreover from T have "map fst (strategies ascii_runtime drift_document roundtrip_locator)
     = [primary_position, context_match, text_fingerprint, structural_path, fuzzy_match]"
    by blast
  ultimately show ?thesis
    by (simp add: s c)
qed

section \<open>The locator without context on the grown document\<close>

text \<open>What each strategy does on \<open>xxabc\<close> for the locator of the selection \<open>abc\<close>
  captured with no context: the primary recheck, the fingerprint search and the
  structural search return \<open>null\<close>, the context search does not return, and the fuzzy
  search returns the selected text at its new place, a candidate that validation accepts
  with the recomputed confidence 0.92.\<close>

lemma uncontexted_primary:
  "primary (calculatePosition now textId uncontexted_selection)
     = \<lparr> startOffset = 0, endOffset = 3, selectedText = asc ''abc'' \<rparr>"
  by (simp add: calculatePosition_def uncontexted_selection_def)

lemma uncontexted_fingerprint:
  "fingerprint (calculatePosition now textId uncontexted_selection) = [48]"
  by (simp add: calculatePosition_def uncontexted_selection_def generateTextFingerprint_PS_def
      Let_def is_ws_def trigrams_of_def sha256_def hex_digit_def to_hex.simps asc_def
      slice_from_def slice_def)

lemma shifted_primary:
  "findByPrimaryPosition ascii_runtime shifted_document
     (calculatePosition now textId uncontexted_selection) = None"
  by (simp add: findByPrimaryPosition_def uncontexted_primary shifted_document_def asc_def
      slice_def Let_def calculateTextSimilarity_PS_def normalizeText_PS_def ascii_runtime_def
      is_ws_def is_word_def is_cjk_def ascii_lower_def trim_def set_size_def)

lemma shifted_context:
  "findByContextMatch rt shifted_document (calculatePosition now textId uncontexted_selection)
     = None"
proof -
  let ?pos = "calculatePosition now textId uncontexted_selection"
  have "ctx_before (context_info ?pos) = [] \<and> ctx_after (context_info ?pos) = []"
    by (simp add: calculatePosition_def uncontexted_selection_def slice_from_def slice_def)
  then show ?thesis
    using findByContextMatch_returns_iff [of rt shifted_document ?pos] by simp
qed

lemma shifted_structural:
  "findByStructuralPath shifted_document (calculatePosition now textId uncontexted_selection)
     = None"
  by (simp add: findByStructuralPath_def calculatePosition_def uncontexted_selection_def
      analyze_def truthy_string_def truthy_number_def calculateParagraphIndex_def)

lemma shifted_fuzzy:
  "findByFuzzyMatch ascii_runtime shifted_document
     (calculatePosition now textId uncontexted_selection) = Some shifted_range"
proof -
  have "literal_search (asc ''abc'') shifted_document = FirstMatch 2 (asc ''abc'')"
    by (simp add: literal_search_def shifted_document_def asc_def ascii_upper_def)
  then show ?thesis
    by (simp add: findByFuzzyMatch_def uncontexted_primary Let_def ascii_runtime_def
        calculateTextSimilarity_TMA_def shifted_range_def asc_def is_ws_def)
qed

lemma shifted_scoring:
  "validatePosition rt shifted_range (calculatePosition now textId uncontexted_selection)"
  "calculateMatchConfidence rt shifted_range (calculatePosition now textId uncontexted_selection)
     = 23 / 25"
  by (simp_all add: validatePosition_def calculateMatchConfidence_def uncontexted_primary Let_def
      calculateTextSimilarity_PS_def calculatePositionAccuracy_def calculateLengthConsistency_def
      calculateContextMatch_def shifted_range_def asc_def)

lemma shifted_windows:
  assumes "i \<le> 2"
  shows "generateTextFingerprint_TMA ascii_runtime
           (slice shifted_document (int i) (int i + int (length (asc ''abc'')))) = []"
proof -
  from assms have "i = 0 \<or> i = 1 \<or> i = 2" by auto
  then show ?thesis
    by (auto simp: generateTextFingerprint_TMA_def ascii_runtime_def shifted_document_def
        asc_def slice_def Let_def is_ws_def trigrams_of_def ascii_lower_def)
qed

lemma shifted_fingerprint_loop:
  "fingerprint_loop ascii_runtime shifted_document (asc ''abc'') [48] i = None"
proof (induction ascii_runtime shifted_document "asc ''abc''" "[48 :: nat]" i
    rule: fingerprint_loop.induct)
  case (1 i)
  show ?case
  proof (cases "int i \<le> int (length shifted_document) - int (length (asc ''abc''))")
    case False
    then show ?thesis by (subst fingerprint_loop.simps) (simp add: Let_def)
  next
    case True
    then have "i \<le> 2" by (simp add: shifted_document_def asc_def)
    then have gate: "\<not> compareFingerprints [48]
       (generateTextFingerprint_TMA ascii_runtime
          (slice shifted_document (int i) (int i + int (length (asc ''abc'')))))"
      by (simp only: shifted_windows zero_hash_never_matches not_False_eq_True)
    from "1.hyps"(2) [OF refl True refl refl gate]
    show ?thesis
      by (subst fingerprint_loop.simps) (simp add: Let_def True gate)
  qed
qed

lemma shifted_fingerprint:
  "findByTextFingerprint ascii_runtime shifted_document
     (calculatePosition now textId uncontexted_selection) = None"
  by (simp add: findByTextFingerprint_def uncontexted_primary uncontexted_fingerprint
      shifted_fingerprint_loop)

section \<open>The claims\<close>

text \<open>
  Claim C1 says that for every document text, stored locator and threshold
  \<open>findAnnotationPosition\<close> runs its strategies in the fixed order and returns success
  at once with the first validated candidate whose recomputed confidence reaches
  \<open>minConfidence\<close>. The code does not do so for a locator whose stored context is empty
  on both sides, once the primary recheck fails. Here the selection is the whole
  document \<open>abc\<close>, captured with no context, and the document has become \<open>xxabc\<close>.
  The primary recheck returns \<open>null\<close> (the text at offsets 0 to 3 is \<open>xxa\<close>); the
  fingerprint search and the structural search would return \<open>null\<close>; the fuzzy search
  would return the range from 2 to 5 with the text \<open>abc\<close>, which passes validation with
  the recomputed confidence 0.92, above the default threshold 0.7: it is the first
  validated candidate that reaches the threshold. But the context search, second in the
  order, never returns (\<open>None\<close> for it, see \<open>findByContextMatch_returns_iff\<close>), so the
  fuzzy search is never run and the call returns nothing, for every threshold.
\<close>

theorem cascade_hangs_before_valid_candidate:
  "findByPrimaryPosition ascii_runtime shifted_document
       (calculatePosition now textId uncontexted_selection) = None
   \<and> findByContextMatch ascii_runtime shifted_document
       (calculatePosition now textId uncontexted_selection) = None
   \<and> findByTextFingerprint ascii_runtime shifted_document
       (calculatePosition now textId uncontexted_selection) = None
   \<and> findByStructuralPath shifted_document
       (calculatePosition now textId uncontexted_selection) = None
   \<and> findByFuzzyMatch ascii_runtime shifted_document
       (calculatePosition now textId uncontexted_selection) = Some shifted_range
   \<and> validatePosition ascii_runtime shifted_range
       (calculatePosition now textId uncontexted_selection)
   \<and> calculateMatchConfidence ascii_runtime shifted_range
       (calculatePosition now textId uncontexted_selection) = 23 / 25
   \<and> default_minConfidence \<le> 23 / 25
   \<and> findAnnotationPosition ascii_runtime shifted_document
       (calculatePosition now textId uncontexted_selection) minConfidence = None"
proof -
  have "findAnnotationPosition ascii_runtime shifted_document
      (calculatePosition now textId uncontexted_selection) minConfidence = None"
    by (simp add: findAnnotationPosition_def strategies_def shifted_primary shifted_context)
  then show ?thesis
    by (simp add: shifted_primary shifted_context shifted_fingerprint shifted_structural
        shifted_fuzzy shifted_scoring default_minConfidence_def)
qed

text \<open>
  Claim C2, as amended. When \<open>calculatePosition\<close> is run on a selection of a document
  (offsets inside the document, the slice at them equal to the selected text) and
  \<open>findAnnotationPosition\<close> is then run on the same text with the default threshold, the
  result is a success after one attempt, with the single match of method
  primary_position. The confidence it reports, in its metadata and in the match, is the
  recomputed blend \<open>0.4 + 0.3 + 0.2 + 0.1 * 0.8 = 0.98\<close>; the confidence 1.0 is the one of
  the range that the strategy returned and of the metadata of the returned locator.
\<close>

theorem roundtrip_resolves_by_primary:
  assumes "0 \<le> sel_startOffset sel" and "sel_startOffset sel < sel_endOffset sel"
    and "sel_endOffset sel \<le> int (length documentText)"
    and "slice documentText (sel_startOffset sel) (sel_endOffset sel) = sel_selectedText sel"
  shows "findAnnotationPosition rt documentText (calculatePosition now textId sel)
           default_minConfidence
     = Some \<lparr> success = True,
              position = Some ((calculatePosition now textId sel)
                           \<lparr> metadata := (metadata (calculatePosition now textId sel))
                                          \<lparr> pm_confidence := 1 \<rparr> \<rparr>),
              matches = Some [\<lparr> am_range = \<lparr> r_startOffset = sel_startOffset sel,
                                              r_endOffset = sel_endOffset sel,
                                              r_text = sel_selectedText sel,
                                              r_confidence = Some 1 \<rparr>,
                                am_confidence = 49 / 50, am_method = primary_position,
                                am_strategy = primary_position, validationPassed = True \<rparr>],
              errors = None,
              res_metadata = \<lparr> totalAttempts = 1, strategiesUsed = [primary_position],
                               res_confidence = 49 / 50 \<rparr> \<rparr>"
  using assms by (rule primary_hit)

theorem roundtrip_resolves_by_primary_witness:
  "0 \<le> sel_startOffset roundtrip_selection
   \<and> sel_startOffset roundtrip_selection < sel_endOffset roundtrip_selection
   \<and> sel_endOffset roundtrip_selection \<le> int (length roundtrip_document)
   \<and> slice roundtrip_document (sel_startOffset roundtrip_selection)
       (sel_endOffset roundtrip_selection) = sel_selectedText roundtrip_selection
   \<and> findAnnotationPosition ascii_runtime roundtrip_document
       (calculatePosition 0 (asc ''law-1'') roundtrip_selection) default_minConfidence
     = Some roundtrip_result"
  using roundtrip_resolves_by_primary [OF roundtrip_conditions, of ascii_runtime 0 "asc ''law-1''"]
    roundtrip_conditions
  by (simp add: roundtrip_result_def roundtrip_locator_def make_match_def roundtrip_selection_def)

text \<open>The claim as it was stated, with the reported confidence 1.0, fails on the
  round-trip example of the specification itself.\<close>

theorem roundtrip_confidence_counterexample:
  "findAnnotationPosition ascii_runtime roundtrip_document roundtrip_locator
     default_minConfidence = Some roundtrip_result
   \<and> success roundtrip_result
   \<and> match_methods roundtrip_result = [primary_position]
   \<and> reported_confidence roundtrip_result = 49 / 50
   \<and> reported_confidence roundtrip_result \<noteq> 1"
  by (simp add: roundtrip_resolves)
     (simp add: roundtrip_result_def reported_confidence_def match_methods_def make_match_def)

text \<open>
  Claim C3. The primary-position recheck, for every document text and stored primary
  fields: offsets that are negative, beyond the document or empty (\<open>start \<ge> end\<close>)
  yield no match, as a value; otherwise a slice identical to the stored text gives the
  range with confidence 1.0, one identical only after normalization gives it with
  confidence 0.9, and any other slice gives no match.
\<close>

theorem primary_recheck_cases:
  "(startOffset (primary pos) < 0 \<or> endOffset (primary pos) > int (length textContent)
      \<or> startOffset (primary pos) \<ge> endOffset (primary pos)
    \<longrightarrow> findByPrimaryPosition rt textContent pos = None)
   \<and> (0 \<le> startOffset (primary pos) \<and> endOffset (primary pos) \<le> int (length textContent)
      \<and> startOffset (primary pos) < endOffset (primary pos)
    \<longrightarrow>
      (slice textContent (startOffset (primary pos)) (endOffset (primary pos))
         = selectedText (primary pos)
       \<longrightarrow> findByPrimaryPosition rt textContent pos
           = Some \<lparr> r_startOffset = startOffset (primary pos),
                    r_endOffset = endOffset (primary pos),
                    r_text = slice textContent (startOffset (primary pos))
                               (endOffset (primary pos)),
                    r_confidence = Some 1 \<rparr>)
      \<and> (slice textContent (startOffset (primary pos)) (endOffset (primary pos))
           \<noteq> selectedText (primary pos)
         \<and> normalizeText_PS rt (slice textContent (startOffset (primary pos))
                                  (endOffset (primary pos)))
           = normalizeText_PS rt (selectedText (primary pos))
       \<longrightarrow> findByPrimaryPosition rt textContent pos
           = Some \<lparr> r_startOffset = startOffset (primary pos),
                    r_endOffset = endOffset (primary pos),
                    r_text = slice textContent (startOffset (primary pos))
                               (endOffset (primary pos)),
                    r_confidence = Some (9 / 10) \<rparr>)
      \<and> (slice textContent (startOffset (primary pos)) (endOffset (primary pos))
           \<noteq> selectedText (primary pos)
         \<and> normalizeText_PS rt (slice textContent (startOffset (primary pos))
                                  (endOffset (primary pos)))
           \<noteq> normalizeText_PS rt (selectedText (primary pos))
       \<longrightarrow> findByPrimaryPosition rt textContent pos = None))"
  by (auto simp: findByPrimaryPosition_def Let_def)

theorem primary_recheck_cases_witness:
  "findByPrimaryPosition ascii_runtime greeting (greeting_locator 6 20 (asc ''World'')) = None
   \<and> findByPrimaryPosition ascii_runtime greeting (greeting_locator 0 5 (asc ''Hello''))
     = Some \<lparr> r_startOffset = 0, r_endOffset = 5, r_text = asc ''Hello'',
              r_confidence = Some 1 \<rparr>
   \<and> findByPrimaryPosition ascii_runtime greeting (greeting_locator 0 5 (asc ''hello''))
     = Some \<lparr> r_startOffset = 0, r_endOffset = 5, r_text = asc ''Hello'',
              r_confidence = Some (9 / 10) \<rparr>
   \<and> findByPrimaryPosition ascii_runtime greeting (greeting_locator 0 5 (asc ''World''))
     = None"
proof -
  have len: "length greeting = 11" and sl: "slice greeting 0 5 = asc ''Hello''"
    by (simp_all add: greeting_def asc_def slice_def Let_def)
  have n: "normalizeText_PS ascii_runtime (asc ''Hello'') = asc ''hello''"
    "normalizeText_PS ascii_runtime (asc ''hello'') = asc ''hello''"
    "normalizeText_PS ascii_runtime (asc ''World'') = asc ''world''"
    by (simp_all add: normalizeText_PS_def ascii_runtime_def asc_def is_ws_def is_word_def
        is_cjk_def trim_def ascii_lower_def)
  have d: "asc ''Hello'' \<noteq> asc ''hello''" "asc ''Hello'' \<noteq> asc ''World''"
    "asc ''hello'' \<noteq> asc ''world''"
    by (simp_all add: asc_def)
  show ?thesis
    using primary_recheck_cases [of "greeting_locator 6 20 (asc ''World'')" greeting ascii_runtime]
      primary_recheck_cases [of "greeting_locator 0 5 (asc ''Hello'')" greeting ascii_runtime]
      primary_recheck_cases [of "greeting_locator 0 5 (asc ''hello'')" greeting ascii_runtime]
      primary_recheck_cases [of "greeting_locator 0 5 (asc ''World'')" greeting ascii_runtime]
    by (simp add: greeting_locator_def len sl n d)
qed

text \<open>
  Claim C4 says that \<open>findAnnotationPosition\<close> returns a failure result whenever no
  strategy produces a validated candidate of confidence 0.5 or more. The code does not
  return at all for a locator whose stored context is empty on both sides, once the
  primary recheck fails: the pattern of the context search is then \<open>.{0,200}\<close> alone,
  its last match is empty, \<open>exec\<close> leaves \<open>lastIndex\<close> where it is, and the loop of
  \<open>findMatches\<close> goes on for ever (see \<open>findByContextMatch_returns_iff\<close>). Here the
  selection is the whole document \<open>abc\<close>, captured with no context, and the document
  has become \<open>ab\<close>.
\<close>

theorem empty_context_never_returns:
  "findByPrimaryPosition rt (asc ''ab'') (calculatePosition now textId uncontexted_selection)
     = None
   \<and> findByContextMatch rt (asc ''ab'') (calculatePosition now textId uncontexted_selection)
     = None
   \<and> findAnnotationPosition rt (asc ''ab'')
       (calculatePosition now textId uncontexted_selection) minConfidence = None"
proof -
  let ?pos = "calculatePosition now textId uncontexted_selection"
  have p: "findByPrimaryPosition rt (asc ''ab'') ?pos = None"
    by (simp add: findByPrimaryPosition_def calculatePosition_def uncontexted_selection_def
        asc_def)
  have "ctx_before (context_info ?pos) = [] \<and> ctx_after (context_info ?pos) = []"
    by (simp add: calculatePosition_def uncontexted_selection_def slice_from_def slice_def)
  then have c: "findByContextMatch rt (asc ''ab'') ?pos = None"
    using findByContextMatch_returns_iff [of rt "asc ''ab''" ?pos] by simp
  show ?thesis
    by (simp add: findAnnotationPosition_def strategies_def p c)
qed

text \<open>
  Claim C5. The fingerprint strategy is the search that the specification words: over
  the windows of the stored text's length that start at the multiples of
  \<open>max(1, floor(windowLength / 4))\<close> and fit in the document, in order, it keeps those
  whose trigram fingerprint has a shingle-set Jaccard similarity above 0.3 with the stored
  fingerprint, and returns the first of them whose text similarity to the stored text is
  above 0.8, with that similarity as confidence, or \<open>null\<close> when there is none. The
  right-hand side states the step, the window starts, the trigram fingerprint, the
  shingle sets and the two thresholds in its own terms (\<open>window_starts\<close>,
  \<open>trigram_fingerprint\<close>, \<open>shingles\<close>, \<open>jaccard\<close>).
\<close>

theorem fingerprint_search_refines_spec:
  "findByTextFingerprint rt textContent pos = findByTextFingerprint_spec rt textContent pos"
proof (cases "length (selectedText (primary pos)) \<le> length textContent")
  case True
  have step: "window_step (length (selectedText (primary pos)))
      = max 1 (length (selectedText (primary pos)) div 4)"
    by (simp add: window_step_def)
  from fingerprint_loop_windows [OF True, of 0 rt "fingerprint pos"] show ?thesis
    unfolding step
    by (simp add: findByTextFingerprint_def findByTextFingerprint_spec_def window_starts_def
        True Let_def compareFingerprints_jaccard generateTextFingerprint_TMA_trigram)
next
  case False
  then have "\<not> int 0 \<le> int (length textContent) - int (length (selectedText (primary pos)))"
    by simp
  then have "fingerprint_loop rt textContent (selectedText (primary pos)) (fingerprint pos) 0
      = None"
    by (subst fingerprint_loop.simps) (simp add: Let_def)
  with False show ?thesis
    by (simp add: findByTextFingerprint_def findByTextFingerprint_spec_def window_starts_def
        Let_def)
qed

text \<open>
  Claim C6. For every validated candidate the recomputed confidence is
  \<open>0.4 * textSimilarity + 0.3 * positionAccuracy + 0.2 * lengthConsistency + 0.1 * 0.8\<close>,
  capped at 1.0: the position accuracy is the mean of the start and end accuracies
  \<open>max(0, 1 - offsetDiff / max(0.1 * originalSpanLength, 10))\<close>, the length consistency
  is the smaller of the two text lengths over the larger, and the context term is the
  constant 0.8.
\<close>

theorem match_confidence_formula:
  assumes "validatePosition rt result pos"
  shows "calculateMatchConfidence rt result pos =
    min 1 (2 / 5 * calculateTextSimilarity_PS rt (r_text result) (selectedText (primary pos))
      + 3 / 10 *
         ((max 0 (1 - of_int \<bar>r_startOffset result - startOffset (primary pos)\<bar>
                       / max (1 / 10 * of_int (endOffset (primary pos) - startOffset (primary pos)))
                           10)
           + max 0 (1 - of_int \<bar>r_endOffset result - endOffset (primary pos)\<bar>
                       / max (1 / 10 * of_int (endOffset (primary pos) - startOffset (primary pos)))
                           10))
          / 2)
      + 1 / 5 * (of_nat (min (length (r_text result)) (length (selectedText (primary pos))))
                 / of_nat (max (length (r_text result)) (length (selectedText (primary pos)))))
      + 1 / 10 * (4 / 5))"
proof -
  from assms have "selectedText (primary pos) \<noteq> []"
    by (auto simp: validatePosition_def Let_def split: if_splits)
  then show ?thesis
    by (simp add: calculateMatchConfidence_def calculatePositionAccuracy_def
        calculateLengthConsistency_def calculateContextMatch_def Let_def mult.commute min.commute)
qed

theorem match_confidence_formula_witness:
  "validatePosition ascii_runtime (drifted_range 1) roundtrip_locator
   \<and> calculateMatchConfidence ascii_runtime (drifted_range 1) roundtrip_locator = 17 / 25"
proof -
  have v: "validatePosition ascii_runtime (drifted_range 1) roundtrip_locator"
    by (simp add: roundtrip_locator_def drift_scoring)
  have "primary roundtrip_locator
      = \<lparr> startOffset = 4, endOffset = 6, selectedText = [35215, 23450] \<rparr>"
    by (simp add: roundtrip_locator_def roundtrip_primary)
  with match_confidence_formula [OF v] v show ?thesis
    by (simp add: drifted_range_def calculateTextSimilarity_PS_def)
qed

text \<open>
  Claim C7 says that the structural strategy is skipped only when the locator has
  neither an element path nor a paragraph index. \<open>PositionService.findByStructuralPath\<close>
  tests the truth value of \<open>paragraphIndex\<close>, so the paragraph index 0, which
  \<open>analyze\<close> gives every selection that starts in the first 300 characters, counts as
  absent: with no element path the strategy is skipped although the index is set and
  \<open>StructuralAnalyzer.findByStructuralPath\<close>, which tests \<open>!== undefined\<close>, finds the
  selected text. Here for the locator of the round-trip example on the drifted document.
\<close>

theorem paragraph_zero_is_skipped:
  "paragraphIndex (structural roundtrip_locator) = Some 0
   \<and> elementPath (structural roundtrip_locator) = None
   \<and> findByStructuralPath drift_document roundtrip_locator = None
   \<and> findByStructuralPath_SA drift_document roundtrip_locator = Some (drifted_range (4 / 5))"
proof -
  have s: "structural roundtrip_locator
      = \<lparr> chapterId = Some (asc ''chapter_0''), articleId = Some (asc ''article_0''),
          sectionId = None, paragraphIndex = Some 0, elementPath = None \<rparr>"
    by (simp add: roundtrip_locator_def calculatePosition_def roundtrip_selection_def analyze_def
        truthy_string_def calculateParagraphIndex_def findChapterId_def findArticleId_def
        to_decimal_def to_decimal_nat.simps asc_def)
  have d: "drift_document = [48, 49, 50, 51, 52, 53, 54, 55, 56, 57, 31532, 19968, 26781, 32,
      35215, 23450, 22914, 19979, 65306, 20219, 20309, 20154, 19981, 24471, 46, 46, 46]"
    by (simp add: drift_document_def asc_def roundtrip_document_def)
  have p: "selectedText (primary roundtrip_locator) = [35215, 23450]"
    by (simp add: roundtrip_locator_def roundtrip_primary)
  have "findByParagraphIndex drift_document 0 [35215, 23450] = Some (drifted_range (4 / 5))"
    by (simp add: findByParagraphIndex_def Let_def d slice_def indexOf_def starts_with_def
        drifted_range_def)
  then have "findByStructuralPath_SA drift_document roundtrip_locator
      = Some (drifted_range (4 / 5))"
    by (simp add: findByStructuralPath_SA_def s p)
  moreover have "findByStructuralPath drift_document roundtrip_locator = None"
    by (simp add: roundtrip_locator_def drift_structural)
  ultimately show ?thesis
    by (simp add: s)
qed

text \<open>
  Claim C8. Drift: for the locator made from the selection \<open>[4, 6)\<close> of the round-trip
  example, after ten characters of unrelated text (here: any ten ASCII characters) are
  inserted before offset 0 of the document, \<open>findAnnotationPosition\<close> with the default
  threshold returns a success whose candidates are those of context_match and
  fuzzy_match, and the start offset of the returned locator is 14. No candidate reaches
  the threshold (both have confidence 0.68), so all five strategies are attempted and the
  first of the two best candidates, the one of context_match, is used.
\<close>

theorem drift_resolves_at_new_offset:
  assumes "length inserted = 10" and "list_all (\<lambda>c. c < 128) inserted"
  shows "\<exists>res. findAnnotationPosition ascii_runtime (inserted @ roundtrip_document)
                 (calculatePosition now textId roundtrip_selection) default_minConfidence
               = Some res
     \<and> success res
     \<and> match_methods res = [context_match, fuzzy_match]
     \<and> position res = Some (updatePosition (calculatePosition now textId roundtrip_selection)
                               (drifted_range (19 / 20)))
     \<and> resolved_start res = Some 14
     \<and> reported_confidence res = 17 / 25
     \<and> strategiesUsed (res_metadata res)
         = [primary_position, context_match, text_fingerprint, structural_path, fuzzy_match]"
proof -
  let ?pos = "calculatePosition now textId roundtrip_selection"
  have "findAnnotationPosition ascii_runtime (inserted @ roundtrip_document) ?pos
          default_minConfidence
      = Some \<lparr> success = True,
               position = Some (updatePosition ?pos (drifted_range (19 / 20))),
               matches = Some [make_match (drifted_range (19 / 20)) (17 / 25) context_match,
                               make_match (drifted_range 1) (17 / 25) fuzzy_match],
               errors = None,
               res_metadata =
                 \<lparr> totalAttempts = 5,
                   strategiesUsed = [primary_position, context_match, text_fingerprint,
                                     structural_path, fuzzy_match],
                   res_confidence = 17 / 25 \<rparr> \<rparr>"
    by (simp add: findAnnotationPosition_def drift_strategies [OF assms] drift_scoring
        default_minConfidence_def after_loop_def best_match_def make_match_def Let_def)
  then show ?thesis
    by (simp add: match_methods_def resolved_start_def reported_confidence_def make_match_def
        updatePosition_def drifted_range_def)
qed

theorem drift_resolves_at_new_offset_witness:
  "length (asc ''0123456789'') = 10
   \<and> list_all (\<lambda>c. c < 128) (asc ''0123456789'')
   \<and> (\<exists>res. findAnnotationPosition ascii_runtime drift_document roundtrip_locator
               default_minConfidence = Some res
        \<and> success res
        \<and> match_methods res = [context_match, fuzzy_match]
        \<and> resolved_start res = Some 14
        \<and> reported_confidence res = 17 / 25)"
  using drift_resolves_at_new_offset [OF digits_are_ascii, of 0 "asc ''law-1''"] digits_are_ascii
  by (auto simp: drift_document_def roundtrip_locator_def)

text \<open>
  Claim C9. Frame: whenever \<open>findAnnotationPosition\<close> returns a success, the locator in
  the result is the input locator with its primary fields replaced by those of a range
  and the confidence of its metadata replaced; the context, the fingerprint, the
  structural fields and the other metadata (\<open>createdAt\<close>, \<open>textLength\<close>, \<open>version\<close>) are
  those of the input locator.
\<close>

theorem update_frame:
  assumes "findAnnotationPosition rt textContent pos minConfidence = Some res"
    and "success res"
  shows "\<exists>p (range :: TextRange). position res = Some p
     \<and> primary p = \<lparr> startOffset = r_startOffset range, endOffset = r_endOffset range,
                      selectedText = r_text range \<rparr>
     \<and> context_info p = context_info pos
     \<and> fingerprint p = fingerprint pos
     \<and> structural p = structural pos
     \<and> createdAt (metadata p) = createdAt (metadata pos)
     \<and> textLength (metadata p) = textLength (metadata pos)
     \<and> version (metadata p) = version (metadata pos)
     \<and> p = pos \<lparr> primary := primary p,
                 metadata := (metadata pos) \<lparr> pm_confidence := pm_confidence (metadata p) \<rparr> \<rparr>"
proof -
  from assms obtain r where r: "position res = Some (updatePosition pos r)"
    unfolding findAnnotationPosition_def by (blast dest: strategy_loop_success_position)
  show ?thesis
    apply (rule exI [of _ "updatePosition pos r"])
    apply (rule exI [of _ r])
    apply (simp add: r updatePosition_def)
    done
qed

theorem update_frame_witness:
  "findAnnotationPosition ascii_runtime roundtrip_document roundtrip_locator
     default_minConfidence = Some roundtrip_result
   \<and> success roundtrip_result
   \<and> (\<exists>p (range :: TextRange). position roundtrip_result = Some p
        \<and> primary p = \<lparr> startOffset = r_startOffset range, endOffset = r_endOffset range,
                         selectedText = r_text range \<rparr>
        \<and> context_info p = context_info roundtrip_locator
        \<and> fingerprint p = fingerprint roundtrip_locator
        \<and> structural p = structural roundtrip_locator
        \<and> createdAt (metadata p) = createdAt (metadata roundtrip_locator)
        \<and> textLength (metadata p) = textLength (metadata roundtrip_locator)
        \<and> version (metadata p) = version (metadata roundtrip_locator)
        \<and> p = roundtrip_locator
              \<lparr> primary := primary p,
                metadata := (metadata roundtrip_locator)
                              \<lparr> pm_confidence := pm_confidence (metadata p) \<rparr> \<rparr>)"
proof -
  have s: "success roundtrip_result" by (simp add: roundtrip_result_def)
  from update_frame [OF roundtrip_resolves s] roundtrip_resolves s show ?thesis by blast
qed

text \<open>
  Claim C10. Noninterference of the stored context hash: for every document text and
  threshold, two locators that differ only in \<open>context.hash\<close> resolve alike. The call
  with the other hash returns exactly when the call with the original one does, and its
  result is the same result with the other hash in the returned locator, so that the
  success flag, the matches, the resolved offsets and text, the methods and the
  confidences are equal; and the context pattern is built from \<open>before\<close> and \<open>after\<close>
  only.
\<close>

theorem context_hash_noninterference:
  "findAnnotationPosition rt textContent (with_hash h pos) minConfidence
     = map_option (\<lambda>res. res \<lparr> position := map_option (with_hash h) (position res) \<rparr>)
         (findAnnotationPosition rt textContent pos minConfidence)
   \<and> map_option observable (findAnnotationPosition rt textContent (with_hash h pos) minConfidence)
     = map_option observable (findAnnotationPosition rt textContent pos minConfidence)
   \<and> buildContextPattern (context_info (with_hash h pos))
     = buildContextPattern (context_info pos)"
proof -
  have a: "findAnnotationPosition rt textContent (with_hash h pos) minConfidence
     = map_option (\<lambda>res. res \<lparr> position := map_option (with_hash h) (position res) \<rparr>)
         (findAnnotationPosition rt textContent pos minConfidence)"
    by (simp add: findAnnotationPosition_def strategies_with_hash strategy_loop_with_hash)
  have b: "observable (res \<lparr> position := map_option (with_hash h) (position res) \<rparr>)
     = observable res" for res
    by (cases "position res") (simp_all add: observable_def with_hash_simps)
  have c: "buildContextPattern (context_info (with_hash h pos))
     = buildContextPattern (context_info pos)"
    by (simp add: buildContextPattern_def with_hash_simps)
  show ?thesis
    by (simp add: a b c option.map_comp comp_def)
qed

end
